theory Spec2Isabelle
  imports Complex_Main "HOL-Library.Sublist" "HOL-Library.Multiset"
begin

section \<open>The peers checker (peers\_checker.py)\<close>

text \<open>
  The script probes a list of peer descriptors \<open>id@host:port\<close>, keeps the peers whose
  reported block height is close enough to a reference height, and writes the best ones
  to files. The functions below keep the names of the Python functions they embed.

  What the script cannot decide by itself is taken from an environment: the outcome of
  a TCP connection attempt, the reply to an HTTP request, the order in which the thread
  pool completes its tasks, and the file system. Exceptions are values: a function that
  may raise returns \<open>exn + 'a\<close>, with \<open>Inl\<close> for the exception raised.
  Logging is modelled only in \<open>check_nodes\<close>, as the list of records the collecting
  loop emits.
\<close>

subsection \<open>Exceptions\<close>

text \<open>
  The exceptions the script can meet, each standing for its class and the subclasses
  the script does not tell apart: \<open>OSError\<close> is what \<open>socket.error\<close>, \<open>socket.timeout\<close>
  and \<open>IOError\<close> name, \<open>RequestException\<close> is the base class of the requests library.
  All of them derive from \<open>Exception\<close>, so \<open>except Exception\<close> catches every \<open>exn\<close>;
  \<open>sys.exit\<close>, which does not, is an outcome of its own in \<open>main\<close>.
\<close>

datatype exn =
    ValueError | TypeError | KeyError | IndexError | OverflowError | AttributeError
  | OSError | RequestException

subsection \<open>Strings\<close>

text \<open>Characters for which \<open>str.isspace\<close> holds, among the ASCII ones.\<close>

definition is_space :: "char \<Rightarrow> bool" where
  "is_space c = (c \<in> set [CHR 0x09, CHR 0x0A, CHR 0x0B, CHR 0x0C, CHR 0x0D,
                           CHR 0x1C, CHR 0x1D, CHR 0x1E, CHR 0x1F, CHR 0x20])"

text \<open>\<open>s.strip()\<close>\<close>

definition strip :: "string \<Rightarrow> string" where
  "strip s = rev (dropWhile is_space (rev (dropWhile is_space s)))"

text \<open>\<open>s.split(sep)\<close> for a separator of one character: never the empty list.\<close>

fun str_split :: "char \<Rightarrow> string \<Rightarrow> string list" where
  "str_split sep [] = [[]]"
| "str_split sep (c # cs) =
     (if c = sep then [] # str_split sep cs
      else (case str_split sep cs of
              [] \<Rightarrow> [[c]]
            | p # ps \<Rightarrow> (c # p) # ps))"

text \<open>\<open>sep.join(xs)\<close> for a separator of one character.\<close>

fun str_join :: "char \<Rightarrow> string list \<Rightarrow> string" where
  "str_join sep [] = []"
| "str_join sep [x] = x"
| "str_join sep (x # y # ys) = x @ sep # str_join sep (y # ys)"

text \<open>\<open>old in s\<close>\<close>

fun str_contains :: "string \<Rightarrow> string \<Rightarrow> bool" where
  "str_contains old [] = (old = [])"
| "str_contains old (c # cs) = (prefix old (c # cs) \<or> str_contains old cs)"

text \<open>
  \<open>s.replace(old, new)\<close>: every occurrence of \<open>old\<close>, found from the left and not
  overlapping, becomes \<open>new\<close>; an empty \<open>old\<close> matches before every character and at
  the end.
\<close>

function replace :: "string \<Rightarrow> string \<Rightarrow> string \<Rightarrow> string" where
  "replace old new s =
     (if old = [] then new @ concat (map (\<lambda>c. c # new) s)
      else if s = [] then []
      else if prefix old s then new @ replace old new (drop (length old) s)
      else hd s # replace old new (tl s))"
  by pat_completeness auto
termination
  by (relation "measure (\<lambda>(old, new, s). length s)") auto

declare replace.simps [simp del]

text \<open>\<open>s.lower()\<close> on ASCII letters.\<close>

definition lower_char :: "char \<Rightarrow> char" where
  "lower_char c =
     (case map_of (zip ''ABCDEFGHIJKLMNOPQRSTUVWXYZ'' ''abcdefghijklmnopqrstuvwxyz'') c of
        Some l \<Rightarrow> l
      | None \<Rightarrow> c)"

definition lower :: "string \<Rightarrow> string" where
  "lower s = map lower_char s"

subsection \<open>Integers and text\<close>

definition is_digit :: "char \<Rightarrow> bool" where
  "is_digit c = (48 \<le> (of_char c :: nat) \<and> (of_char c :: nat) \<le> 57)"

definition digit_val :: "char \<Rightarrow> int" where
  "digit_val c = int (of_char c) - 48"

text \<open>The digits of an integer literal: digits, single underscores allowed between them.\<close>

fun digits_ok :: "string \<Rightarrow> bool" where
  "digits_ok [] = False"
| "digits_ok [c] = is_digit c"
| "digits_ok (c # d # cs) =
     (is_digit c \<and> (if d = CHR ''_'' then digits_ok cs else digits_ok (d # cs)))"

text \<open>The default of \<open>sys.get_int_max_str_digits()\<close>.\<close>

definition int_max_str_digits :: nat where
  "int_max_str_digits = 4300"

text \<open>
  The whitespace \<open>int\<close> skips around a number: among the ASCII characters it is
  narrower than that of \<open>str.strip\<close>, the separators \<open>0x1C\<close> to \<open>0x1F\<close> are not in it.
\<close>

definition is_int_space :: "char \<Rightarrow> bool" where
  "is_int_space c = (c \<in> set [CHR 0x09, CHR 0x0A, CHR 0x0B, CHR 0x0C, CHR 0x0D, CHR 0x20])"

definition int_strip :: "string \<Rightarrow> string" where
  "int_strip s = rev (dropWhile is_int_space (rev (dropWhile is_int_space s)))"

text \<open>
  \<open>int(s)\<close> for a string, base ten: surrounding whitespace is dropped, one sign is
  allowed, anything else raises \<open>ValueError\<close>. Only ASCII digits are modelled.
\<close>

definition int_of_str :: "string \<Rightarrow> exn + int" where
  "int_of_str s =
     (let t = int_strip s;
          (sign, body) = (case t of
                            [] \<Rightarrow> (1, t)
                          | c # r \<Rightarrow> if c = CHR ''-'' then (- 1, r)
                                     else if c = CHR ''+'' then (1, r) else (1, t));
          ds = filter is_digit body
      in if digits_ok body \<and> length ds \<le> int_max_str_digits
         then Inr (sign * foldl (\<lambda>a c. 10 * a + digit_val c) 0 ds)
         else Inl ValueError)"

text \<open>\<open>str(n)\<close> for an integer.\<close>

function str_nat :: "nat \<Rightarrow> string" where
  "str_nat n =
     (if n < 10 then [''0123456789'' ! n]
      else str_nat (n div 10) @ [''0123456789'' ! (n mod 10)])"
  by pat_completeness auto
termination
  by (relation "measure id") auto

declare str_nat.simps [simp del]

definition str_int :: "int \<Rightarrow> string" where
  "str_int i = (if i < 0 then CHR ''-'' # str_nat (nat (- i)) else str_nat (nat i))"

subsection \<open>Decoded JSON\<close>

text \<open>A Python float: \<open>json\<close> also decodes \<open>NaN\<close> and \<open>Infinity\<close>.\<close>

datatype pyfloat = Finite rat | PosInf | NegInf | NaN

text \<open>
  What \<open>response.json()\<close> returns. An object is a dictionary, here the list of its
  items with \<open>map_of\<close> as the lookup.
\<close>

datatype json =
    JNull | JBool bool | JInt int | JFloat pyfloat | JStr string
  | JArr "json list" | JObj "(string \<times> json) list"

text \<open>\<open>int(x)\<close> for a float: truncation towards zero.\<close>

definition trunc :: "rat \<Rightarrow> int" where
  "trunc x = (if 0 \<le> x then \<lfloor>x\<rfloor> else \<lceil>x\<rceil>)"

text \<open>\<open>v[key]\<close> for a string key: only a dictionary can be subscripted with it.\<close>

fun getitem :: "json \<Rightarrow> string \<Rightarrow> exn + json" where
  "getitem (JObj kvs) k = (case map_of kvs k of None \<Rightarrow> Inl KeyError | Some v \<Rightarrow> Inr v)"
| "getitem v k = Inl TypeError"

text \<open>\<open>int(v)\<close> for a decoded value.\<close>

fun py_int :: "json \<Rightarrow> exn + int" where
  "py_int (JStr s) = int_of_str s"
| "py_int (JInt i) = Inr i"
| "py_int (JBool b) = Inr (if b then 1 else 0)"
| "py_int (JFloat (Finite x)) = Inr (trunc x)"
| "py_int (JFloat NaN) = Inl ValueError"
| "py_int (JFloat f) = Inl OverflowError"
| "py_int v = Inl TypeError"

subsection \<open>The network\<close>

record response =
  status_code :: int
  json_body :: "exn + json"

text \<open>
  The network as one task sees it. \<open>tcp_connect ip port\<close> is the outcome of
  \<open>socket.create_connection\<close> with the two clock readings around it: the elapsed
  milliseconds, or the exception raised. \<open>http_get url\<close> is the outcome of
  \<open>requests.get\<close>, and \<open>json_body\<close> that of \<open>response.json()\<close>. \<open>repr_other v\<close> is the
  text an f-string gives for a decoded value that is neither a string nor an integer.
\<close>

record world =
  tcp_connect :: "string \<Rightarrow> int \<Rightarrow> exn + rat"
  http_get :: "string \<Rightarrow> exn + response"
  repr_other :: "json \<Rightarrow> string"

text \<open>\<open>f"{v}"\<close>\<close>

definition format_json :: "world \<Rightarrow> json \<Rightarrow> string" where
  "format_json w v = (case v of JStr s \<Rightarrow> s | JInt i \<Rightarrow> str_int i | _ \<Rightarrow> repr_other w v)"

definition check_connection :: "world \<Rightarrow> string \<Rightarrow> int \<Rightarrow> exn + (bool \<times> rat option)" where
  "check_connection w ip port =
     (case tcp_connect w ip port of
        Inr ms \<Rightarrow> Inr (True, Some ms)
      | Inl e \<Rightarrow> if e = OSError then Inr (False, None) else Inl e)"

text \<open>
  The body of the \<open>try\<close> of \<open>get_latest_block_height\<close> once the status is 200: the three
  values read from the decoded reply.
\<close>

definition read_status :: "json \<Rightarrow> exn + (int \<times> json \<times> json)" where
  "read_status result =
     (case getitem result ''result'' of Inl e \<Rightarrow> Inl e | Inr r1 \<Rightarrow>
     (case getitem r1 ''sync_info'' of Inl e \<Rightarrow> Inl e | Inr si \<Rightarrow>
     (case getitem si ''latest_block_height'' of Inl e \<Rightarrow> Inl e | Inr h \<Rightarrow>
     (case py_int h of Inl e \<Rightarrow> Inl e | Inr latest_block_height \<Rightarrow>
     (case getitem result ''result'' of Inl e \<Rightarrow> Inl e | Inr r2 \<Rightarrow>
     (case getitem r2 ''node_info'' of Inl e \<Rightarrow> Inl e | Inr ni \<Rightarrow>
     (case getitem ni ''moniker'' of Inl e \<Rightarrow> Inl e | Inr moniker \<Rightarrow>
     (case getitem result ''result'' of Inl e \<Rightarrow> Inl e | Inr r3 \<Rightarrow>
     (case getitem r3 ''node_info'' of Inl e \<Rightarrow> Inl e | Inr ni2 \<Rightarrow>
     (case getitem ni2 ''id'' of Inl e \<Rightarrow> Inl e | Inr node_id \<Rightarrow>
        Inr (latest_block_height, moniker, node_id)))))))))))"

definition get_latest_block_height ::
  "world \<Rightarrow> string \<Rightarrow> int \<Rightarrow> exn + (int option \<times> json \<times> json)" where
  "get_latest_block_height w ip rpc_port =
     (let url_http = ''http://'' @ ip @ '':'' @ str_int rpc_port @ ''/status'';
          attempt =
            (case http_get w url_http of Inl e \<Rightarrow> Inl e | Inr resp \<Rightarrow>
             if status_code resp = 200 then
               (case json_body resp of Inl e \<Rightarrow> Inl e | Inr result \<Rightarrow>
               (case read_status result of
                  Inl e \<Rightarrow> Inl e
                | Inr (h, moniker, node_id) \<Rightarrow> Inr (Some (Some h, moniker, node_id))))
             else Inr None)
      in case attempt of
           Inl e \<Rightarrow> if e = RequestException then Inr (None, JStr [], JStr []) else Inl e
         | Inr None \<Rightarrow> Inr (None, JStr [], JStr [])
         | Inr (Some r) \<Rightarrow> Inr r)"

subsection \<open>Evaluating one descriptor\<close>

record moniker_info =
  mi_moniker :: json
  mi_node_id :: json
  mi_ip :: string
  mi_port :: int
  mi_full_peer :: string
  mi_latency :: int

text \<open>An accepted peer: \<open>(line, block_height, moniker_info)\<close>.\<close>

type_synonym connection = "string \<times> int \<times> moniker_info"

text \<open>\<open>max_latency is None or latency <= max_latency\<close>\<close>

definition latency_ok :: "int option \<Rightarrow> rat option \<Rightarrow> exn + bool" where
  "latency_ok max_latency latency =
     (case max_latency of
        None \<Rightarrow> Inr True
      | Some m \<Rightarrow> (case latency of None \<Rightarrow> Inl TypeError | Some l \<Rightarrow> Inr (l \<le> of_int m)))"

text \<open>\<open>int(latency)\<close>\<close>

definition int_of_latency :: "rat option \<Rightarrow> exn + int" where
  "int_of_latency latency = (case latency of None \<Rightarrow> Inl TypeError | Some l \<Rightarrow> Inr (trunc l))"

definition process_line ::
  "world \<Rightarrow> string \<Rightarrow> int \<Rightarrow> int option \<Rightarrow> int \<Rightarrow> exn + connection option" where
  "process_line w line expected_height max_latency accepted_height_difference =
     (let parts = str_split CHR ''@'' line in
      if length parts = 2 then
        (let ip_port = str_split CHR '':'' (parts ! 1) in
         if length ip_port = 2 then
           (let ip = ip_port ! 0 in
            (case int_of_str (ip_port ! 1) of Inl e \<Rightarrow> Inl e | Inr port \<Rightarrow>
            (case check_connection w ip port of Inl e \<Rightarrow> Inl e | Inr (success, latency) \<Rightarrow>
            (case (if success then latency_ok max_latency latency else Inr False) of
               Inl e \<Rightarrow> Inl e
             | Inr passed \<Rightarrow>
                 if passed then
                   (case get_latest_block_height w ip (port + 1) of
                      Inl e \<Rightarrow> Inl e
                    | Inr (block_height, moniker, node_id) \<Rightarrow>
                       (case block_height of
                          None \<Rightarrow> Inr None
                        | Some bh \<Rightarrow>
                            if \<bar>bh - expected_height\<bar> \<le> accepted_height_difference then
                              (case int_of_latency latency of
                                 Inl e \<Rightarrow> Inl e
                               | Inr lat \<Rightarrow>
                                   Inr (Some (line, bh,
                                     \<lparr> mi_moniker = moniker, mi_node_id = node_id, mi_ip = ip,
                                       mi_port = port,
                                       mi_full_peer =
                                         format_json w node_id @ ''@'' @ ip @ '':'' @ str_int port,
                                       mi_latency = lat \<rparr>)))
                            else Inr None))
                 else Inr None))))
         else Inr None)
      else Inr None)"

subsection \<open>The scheduler\<close>

text \<open>
  \<open>as_completed\<close> yields every submitted future once, in the order the pool finishes
  them. The order is the environment's choice: \<open>sched\<close> lists task indices by finishing
  time, and whatever it lists, each of the \<open>n\<close> tasks comes out exactly once.
\<close>

definition as_completed :: "nat list \<Rightarrow> nat \<Rightarrow> nat list" where
  "as_completed sched n =
     filter (\<lambda>i. i < n) (remdups sched) @ filter (\<lambda>i. i \<notin> set sched) [0..<n]"

datatype log_record =
    Processed nat nat
  | ErrorProcessingLine string exn

record collected =
  successful_connections :: "connection list"
  moniker_infos :: "moniker_info list"
  processed_count :: nat
  log :: "log_record list"

text \<open>One turn of the loop over the completed futures: \<open>fut\<close> is the line and its outcome.\<close>

definition collect_step ::
  "nat \<Rightarrow> collected \<Rightarrow> string \<times> (exn + connection option) \<Rightarrow> collected" where
  "collect_step total_lines st fut =
     (case fut of (line, outcome) \<Rightarrow>
        (case outcome of
           Inl e \<Rightarrow> st\<lparr>log := log st @ [ErrorProcessingLine line e]\<rparr>
         | Inr result \<Rightarrow>
             (let st1 = (case result of
                           None \<Rightarrow> st
                         | Some r \<Rightarrow>
                             st\<lparr>successful_connections := successful_connections st @ [r],
                                moniker_infos := moniker_infos st @ [snd (snd r)]\<rparr>);
                  n = processed_count st1 + 1
              in st1\<lparr>processed_count := n, log := log st1 @ [Processed n total_lines]\<rparr>)))"

text \<open>Task \<open>i\<close> evaluates \<open>lines ! i\<close> against the network \<open>net i\<close> it meets.\<close>

definition check_nodes ::
  "(nat \<Rightarrow> world) \<Rightarrow> nat list \<Rightarrow> string list \<Rightarrow> int \<Rightarrow> int option \<Rightarrow> int \<Rightarrow> collected" where
  "check_nodes net sched lines expected_height max_latency accepted_height_difference =
     (let total_lines = length lines;
          futures = map (\<lambda>i. (lines ! i,
                               process_line (net i) (lines ! i) expected_height max_latency
                                 accepted_height_difference))
                        (as_completed sched total_lines)
      in foldl (collect_step total_lines)
           \<lparr>successful_connections = [], moniker_infos = [], processed_count = 0, log = []\<rparr>
           futures)"

subsection \<open>Ranking and writing\<close>

text \<open>
  \<open>xs.sort(key=key, reverse=True)\<close>: the list is reversed, sorted stably in ascending
  order and reversed again, which keeps equal keys in their original order.
\<close>

definition sort_reverse :: "('a \<Rightarrow> int) \<Rightarrow> 'a list \<Rightarrow> 'a list" where
  "sort_reverse key xs = rev (sort_key key (rev xs))"

text \<open>\<open>xs[:n]\<close>: a negative \<open>n\<close> counts from the end.\<close>

definition slice_to :: "'a list \<Rightarrow> int \<Rightarrow> 'a list" where
  "slice_to xs n = (if 0 \<le> n then take (nat n) xs else take (nat (int (length xs) + n)) xs)"

text \<open>
  A file holds text, or the document \<open>json.dump\<close> wrote. \<open>writable name\<close> tells whether
  \<open>open(name, 'w')\<close> succeeds; it raises \<open>OSError\<close> otherwise.
\<close>

datatype content = Text string | Json "moniker_info list"

type_synonym filesys = "string \<Rightarrow> content option"

text \<open>
  The writing loop of \<open>save_top_connections\<close> and \<open>save_ids_only\<close>: \<open>buf\<close> is what the
  file holds so far. An entry that is not a string makes \<open>file.write\<close>, or the
  concatenation with the comma, raise \<open>TypeError\<close>; the file keeps what was written.
\<close>

fun write_entries :: "bool \<Rightarrow> json list \<Rightarrow> string \<Rightarrow> exn option \<times> string" where
  "write_entries first_entry [] buf = (None, buf)"
| "write_entries first_entry (JStr s # rest) buf =
     write_entries False rest (buf @ (if first_entry then s else CHR '','' # s))"
| "write_entries first_entry (v # rest) buf = (Some TypeError, buf)"

definition save_ids_only ::
  "(string \<Rightarrow> bool) \<Rightarrow> filesys \<Rightarrow> connection list \<Rightarrow> string \<Rightarrow> exn option \<times> filesys" where
  "save_ids_only writable fs connections output_filename =
     (let ids_only_filename = replace ''.txt'' ''_ids_only.txt'' output_filename in
      if writable ids_only_filename then
        (case write_entries True (map (\<lambda>conn. mi_node_id (snd (snd conn))) connections) [] of
           (err, buf) \<Rightarrow> (err, fs(ids_only_filename \<mapsto> Text buf)))
      else (Some OSError, fs))"

text \<open>The local \<open>top_connections\<close> of \<open>save_top_connections\<close>.\<close>

definition top_connections :: "connection list \<Rightarrow> int \<Rightarrow> connection list" where
  "top_connections connections top_n =
     slice_to (sort_reverse (\<lambda>x. fst (snd x)) connections) top_n"

text \<open>
  The result is the value returned or the exception raised, the file system, and the
  caller's list, which the function sorts in place.
\<close>

definition save_top_connections ::
  "(string \<Rightarrow> bool) \<Rightarrow> filesys \<Rightarrow> connection list \<Rightarrow> string \<Rightarrow> int
     \<Rightarrow> (exn + nat) \<times> filesys \<times> connection list" where
  "save_top_connections writable fs connections output_filename top_n =
     (let sorted_connections = sort_reverse (\<lambda>x. fst (snd x)) connections;
          top = slice_to sorted_connections top_n
      in if writable output_filename then
           (case write_entries True (map (\<lambda>conn. JStr (fst conn)) top) [] of
              (err1, buf) \<Rightarrow>
                (let fs1 = fs(output_filename \<mapsto> Text buf) in
                 (case err1 of
                    Some e \<Rightarrow> (Inl e, fs1, sorted_connections)
                  | None \<Rightarrow>
                      (case save_ids_only writable fs1 top output_filename of
                         (err2, fs2) \<Rightarrow>
                           (case err2 of
                              Some e \<Rightarrow> (Inl e, fs2, sorted_connections)
                            | None \<Rightarrow> (Inr (length top), fs2, sorted_connections))))))
         else (Inl OSError, fs, sorted_connections))"

definition save_moniker_info ::
  "(string \<Rightarrow> bool) \<Rightarrow> filesys \<Rightarrow> moniker_info list \<Rightarrow> string \<Rightarrow> exn option \<times> filesys" where
  "save_moniker_info writable fs moniker_info output_filename =
     (if writable output_filename then (None, fs(output_filename \<mapsto> Json moniker_info))
      else (Some OSError, fs))"

subsection \<open>The peer list and the reference height\<close>

definition fetch_expected_height :: "world \<Rightarrow> string \<Rightarrow> exn + int option" where
  "fetch_expected_height w rpc_url =
     (let attempt =
            (case http_get w (rpc_url @ ''/status'') of Inl e \<Rightarrow> Inl e | Inr resp \<Rightarrow>
             if status_code resp = 200 then
               (case json_body resp of Inl e \<Rightarrow> Inl e | Inr result \<Rightarrow>
               (case getitem result ''result'' of Inl e \<Rightarrow> Inl e | Inr r1 \<Rightarrow>
               (case getitem r1 ''sync_info'' of Inl e \<Rightarrow> Inl e | Inr si \<Rightarrow>
               (case getitem si ''latest_block_height'' of Inl e \<Rightarrow> Inl e | Inr h \<Rightarrow>
               (case py_int h of Inl e \<Rightarrow> Inl e | Inr expected_height \<Rightarrow>
                  Inr (Some expected_height))))))
             else Inr None)
      in case attempt of
           Inl e \<Rightarrow> if e = RequestException then Inr None else Inl e
         | Inr r \<Rightarrow> Inr r)"

text \<open>\<open>for peer in peers\<close>: what iterating over a decoded value yields.\<close>

fun iterate :: "json \<Rightarrow> exn + json list" where
  "iterate (JArr xs) = Inr xs"
| "iterate (JObj kvs) = Inr (map (\<lambda>kv. JStr (fst kv)) kvs)"
| "iterate (JStr s) = Inr (map (\<lambda>c. JStr [c]) s)"
| "iterate v = Inl TypeError"

text \<open>\<open>v.split(':')[-1]\<close>: only a string has \<open>split\<close>.\<close>

fun last_field :: "json \<Rightarrow> exn + string" where
  "last_field (JStr s) = Inr (last (str_split CHR '':'' s))"
| "last_field v = Inl AttributeError"

text \<open>The f-string of the comprehension in \<open>fetch_peers\<close>, for one peer.\<close>

definition peer_descriptor :: "world \<Rightarrow> json \<Rightarrow> exn + string" where
  "peer_descriptor w peer =
     (case getitem peer ''node_info'' of Inl e \<Rightarrow> Inl e | Inr ni \<Rightarrow>
     (case getitem ni ''id'' of Inl e \<Rightarrow> Inl e | Inr peer_id \<Rightarrow>
     (case getitem peer ''remote_ip'' of Inl e \<Rightarrow> Inl e | Inr remote_ip \<Rightarrow>
     (case getitem peer ''node_info'' of Inl e \<Rightarrow> Inl e | Inr ni2 \<Rightarrow>
     (case getitem ni2 ''listen_addr'' of Inl e \<Rightarrow> Inl e | Inr listen_addr \<Rightarrow>
     (case last_field listen_addr of Inl e \<Rightarrow> Inl e | Inr port \<Rightarrow>
        Inr (format_json w peer_id @ ''@'' @ format_json w remote_ip @ '':'' @ port)))))))"

fun map_exn :: "('a \<Rightarrow> exn + 'b) \<Rightarrow> 'a list \<Rightarrow> exn + 'b list" where
  "map_exn f [] = Inr []"
| "map_exn f (x # xs) =
     (case f x of Inl e \<Rightarrow> Inl e | Inr y \<Rightarrow>
     (case map_exn f xs of Inl e \<Rightarrow> Inl e | Inr ys \<Rightarrow> Inr (y # ys)))"

definition fetch_peers :: "world \<Rightarrow> string \<Rightarrow> exn + string list" where
  "fetch_peers w rpc_url =
     (let attempt =
            (case http_get w (rpc_url @ ''/net_info'') of Inl e \<Rightarrow> Inl e | Inr resp \<Rightarrow>
             if status_code resp = 200 then
               (case json_body resp of Inl e \<Rightarrow> Inl e | Inr result \<Rightarrow>
               (case getitem result ''result'' of Inl e \<Rightarrow> Inl e | Inr r1 \<Rightarrow>
               (case getitem r1 ''peers'' of Inl e \<Rightarrow> Inl e | Inr peers \<Rightarrow>
               (case iterate peers of Inl e \<Rightarrow> Inl e | Inr ps \<Rightarrow>
                  map_exn (peer_descriptor w) ps))))
             else Inr [])
      in case attempt of
           Inl e \<Rightarrow> if e = RequestException then Inr [] else Inl e
         | Inr r \<Rightarrow> Inr r)"

text \<open>\<open>read_file path\<close> is the outcome of opening the file and reading it whole.\<close>

definition parse_file :: "(string \<Rightarrow> exn + string) \<Rightarrow> string \<Rightarrow> exn + string list" where
  "parse_file read_file file_path =
     (case read_file file_path of
        Inr text \<Rightarrow> Inr (str_split CHR '','' (strip text))
      | Inl e \<Rightarrow> if e = OSError then Inr [] else Inl e)"

subsection \<open>The script\<close>

text \<open>
  The environment of one run: the network the script's own two requests meet, the
  network each task meets, the order in which the tasks finish, and the files.
\<close>

record env =
  env_net :: world
  env_task_net :: "nat \<Rightarrow> world"
  env_sched :: "nat list"
  env_read_file :: "string \<Rightarrow> exn + string"
  env_writable :: "string \<Rightarrow> bool"

text \<open>
  How the \<open>try\<close> block of the script ends: it runs to its last line, \<open>sys.exit\<close> leaves
  it with a status, or an exception reaches the handler.
\<close>

datatype outcome = Completed | Exited int | Raised exn

text \<open>The \<open>try\<close> block from \<open>fetch_expected_height\<close> on, the arguments being read.\<close>

definition run ::
  "env \<Rightarrow> filesys \<Rightarrow> string \<Rightarrow> string \<Rightarrow> int \<Rightarrow> string \<Rightarrow> bool \<Rightarrow> int \<Rightarrow> int option
     \<Rightarrow> outcome \<times> filesys" where
  "run env fs rpc_url get_peers_from_file top_n output_filename json_format
       accepted_height_difference max_latency =
     (case fetch_expected_height (env_net env) rpc_url of
        Inl e \<Rightarrow> (Raised e, fs)
      | Inr None \<Rightarrow> (Exited 1, fs)
      | Inr (Some expected_height) \<Rightarrow>
         (case (if get_peers_from_file \<noteq> [] then parse_file (env_read_file env) get_peers_from_file
                else fetch_peers (env_net env) rpc_url) of
            Inl e \<Rightarrow> (Raised e, fs)
          | Inr lines \<Rightarrow>
              if lines = [] then (Exited 1, fs)
              else
                (let checked = check_nodes (env_task_net env) (env_sched env) lines
                                 expected_height max_latency accepted_height_difference;
                     connections = successful_connections checked;
                     moniker_info = moniker_infos checked
                 in (case save_top_connections (env_writable env) fs connections
                            output_filename top_n of
                       (Inl e, fs1, sorted_connections) \<Rightarrow> (Raised e, fs1)
                     | (Inr saved_nodes, fs1, sorted_connections) \<Rightarrow>
                         if json_format then
                           (case save_moniker_info (env_writable env) fs1 moniker_info
                                   (replace ''.txt'' ''_moniker_objs.json'' output_filename) of
                              (Some e, fs2) \<Rightarrow> (Raised e, fs2)
                            | (None, fs2) \<Rightarrow> (Completed, fs2))
                         else (Completed, fs1)))))"

text \<open>\<open>sys.argv[k]\<close>\<close>

definition argv_at :: "string list \<Rightarrow> nat \<Rightarrow> exn + string" where
  "argv_at argv k = (if k < length argv then Inr (argv ! k) else Inl IndexError)"

definition main_body :: "env \<Rightarrow> filesys \<Rightarrow> string list \<Rightarrow> outcome \<times> filesys" where
  "main_body env fs argv =
     (case argv_at argv 1 of Inl e \<Rightarrow> (Raised e, fs) | Inr rpc_url \<Rightarrow>
     (case argv_at argv 2 of Inl e \<Rightarrow> (Raised e, fs) | Inr get_peers_from_file \<Rightarrow>
     (case argv_at argv 3 of Inl e \<Rightarrow> (Raised e, fs) | Inr a3 \<Rightarrow>
     (case int_of_str a3 of Inl e \<Rightarrow> (Raised e, fs) | Inr top_n \<Rightarrow>
     (case argv_at argv 4 of Inl e \<Rightarrow> (Raised e, fs) | Inr output_filename \<Rightarrow>
     (case argv_at argv 5 of Inl e \<Rightarrow> (Raised e, fs) | Inr a5 \<Rightarrow>
     (case argv_at argv 6 of Inl e \<Rightarrow> (Raised e, fs) | Inr a6 \<Rightarrow>
     (case int_of_str a6 of Inl e \<Rightarrow> (Raised e, fs) | Inr accepted_height_difference \<Rightarrow>
     (case (if 7 < length argv
            then (case int_of_str (argv ! 7) of Inl e \<Rightarrow> Inl e | Inr m \<Rightarrow> Inr (Some m))
            else Inr None) of
        Inl e \<Rightarrow> (Raised e, fs)
      | Inr max_latency \<Rightarrow>
          run env fs rpc_url get_peers_from_file top_n output_filename
            (lower a5 = ''true'') accepted_height_difference max_latency)))))))))"

text \<open>
  The exit status of the process with the files it leaves: the handler
  \<open>except Exception\<close> logs and lets the script end normally.
\<close>

definition main :: "env \<Rightarrow> filesys \<Rightarrow> string list \<Rightarrow> int \<times> filesys" where
  "main env fs argv =
     (case main_body env fs argv of
        (Completed, fs') \<Rightarrow> (0, fs')
      | (Exited status, fs') \<Rightarrow> (status, fs')
      | (Raised e, fs') \<Rightarrow> (0, fs'))"

subsection \<open>Example environments\<close>

text \<open>A status reply as a node gives it: height, moniker and identity are strings.\<close>

definition status_doc :: "string \<Rightarrow> string \<Rightarrow> string \<Rightarrow> json" where
  "status_doc height moniker node =
     JObj [(''result'',
        JObj [(''sync_info'', JObj [(''latest_block_height'', JStr height)]),
              (''node_info'', JObj [(''moniker'', JStr moniker), (''id'', JStr node)])])]"

text \<open>Every connection takes \<open>ms\<close> milliseconds, every status query reports \<open>height\<close>.\<close>

definition steady_world :: "rat \<Rightarrow> string \<Rightarrow> world" where
  "steady_world ms height =
     \<lparr> tcp_connect = (\<lambda>ip port. Inr ms),
       http_get = (\<lambda>url. Inr \<lparr> status_code = 200,
                                json_body = Inr (status_doc height ''node'' ''abc'') \<rparr>),
       repr_other = (\<lambda>v. []) \<rparr>"

text \<open>Every task meets the same steady network.\<close>

definition steady_net :: "rat \<Rightarrow> string \<Rightarrow> nat \<Rightarrow> world" where
  "steady_net ms height i = steady_world ms height"

text \<open>
  A network whose status queries report \<open>height\<close>, moniker and identity as given, and
  one where the connection attempt raises \<open>UnicodeError\<close>, a \<open>ValueError\<close>, as the lookup
  of a host name with an empty label such as \<open>x..y\<close> does.
\<close>

definition node_world :: "rat \<Rightarrow> string \<Rightarrow> string \<Rightarrow> string \<Rightarrow> world" where
  "node_world ms height moniker node =
     \<lparr> tcp_connect = (\<lambda>ip port. Inr ms),
       http_get = (\<lambda>url. Inr \<lparr> status_code = 200,
                                json_body = Inr (status_doc height moniker node) \<rparr>),
       repr_other = (\<lambda>v. []) \<rparr>"

definition bad_host_world :: world where
  "bad_host_world =
     \<lparr> tcp_connect = (\<lambda>ip port. Inl ValueError),
       http_get = (\<lambda>url. Inl RequestException),
       repr_other = (\<lambda>v. []) \<rparr>"

text \<open>Task 0 meets the failing network, the other tasks a steady one.\<close>

definition mixed_net :: "nat \<Rightarrow> world" where
  "mixed_net i = (if i = 0 then bad_host_world else steady_world 20 ''1003'')"

text \<open>Task 0 meets a node at height 1005, the other tasks a node at height 1010.\<close>

definition two_peer_net :: "nat \<Rightarrow> world" where
  "two_peer_net i =
     (if i = 0 then node_world 20 ''1005'' ''first'' ''id0''
      else node_world 10 ''1010'' ''second'' ''id1'')"

text \<open>An accepted peer named \<open>name\<close> at the given height, and files that can all be written.\<close>

definition peer :: "string \<Rightarrow> int \<Rightarrow> connection" where
  "peer name height =
     (name @ ''@1.2.3.4:26656'', height,
      \<lparr> mi_moniker = JStr ''node'', mi_node_id = JStr name, mi_ip = ''1.2.3.4'',
        mi_port = 26656, mi_full_peer = name @ ''@1.2.3.4:26656'', mi_latency = 20 \<rparr>)"

definition all_writable :: "string \<Rightarrow> bool" where
  "all_writable name = True"

text \<open>
  A run over a peers file naming two peers: the reference endpoint reports height 1000,
  task 0 finishes before task 1.
\<close>

definition two_peer_env :: env where
  "two_peer_env =
     \<lparr> env_net = steady_world 0 ''1000'',
       env_task_net = two_peer_net,
       env_sched = [0, 1],
       env_read_file = (\<lambda>path. Inr ''id0@10.0.0.1:26656,id1@10.0.0.2:26656''),
       env_writable = all_writable \<rparr>"

text \<open>The same run over a peers file that can be read and is empty, or blank.\<close>

definition empty_file_env :: env where
  "empty_file_env = two_peer_env \<lparr> env_read_file := (\<lambda>path. Inr []) \<rparr>"

definition blank_file_env :: env where
  "blank_file_env = two_peer_env \<lparr> env_read_file := (\<lambda>path. Inr '' '') \<rparr>"

text \<open>A run whose peers file cannot be read.\<close>

definition unreadable_file_env :: env where
  "unreadable_file_env = two_peer_env \<lparr> env_read_file := (\<lambda>path. Inl OSError) \<rparr>"

text \<open>A run whose reference endpoint reports height 1000 and an empty list of peers.\<close>

definition no_peers_world :: world where
  "no_peers_world =
     \<lparr> tcp_connect = (\<lambda>ip port. Inr 0),
       http_get = (\<lambda>url. Inr \<lparr> status_code = 200,
          json_body = Inr (JObj [(''result'',
             JObj [(''sync_info'', JObj [(''latest_block_height'', JStr ''1000'')]),
                   (''peers'', JArr [])])]) \<rparr>),
       repr_other = (\<lambda>v. []) \<rparr>"

definition no_peers_env :: env where
  "no_peers_env = two_peer_env \<lparr> env_net := no_peers_world \<rparr>"

text \<open>The two records the run over \<open>two_peer_env\<close> accepts, and command lines for it.\<close>

definition first_peer :: connection where
  "first_peer =
     (''id0@10.0.0.1:26656'', 1005,
      \<lparr> mi_moniker = JStr ''first'', mi_node_id = JStr ''id0'', mi_ip = ''10.0.0.1'',
        mi_port = 26656, mi_full_peer = ''id0@10.0.0.1:26656'', mi_latency = 20 \<rparr>)"

definition second_peer :: connection where
  "second_peer =
     (''id1@10.0.0.2:26656'', 1010,
      \<lparr> mi_moniker = JStr ''second'', mi_node_id = JStr ''id1'', mi_ip = ''10.0.0.2'',
        mi_port = 26656, mi_full_peer = ''id1@10.0.0.2:26656'', mi_latency = 10 \<rparr>)"

definition file_argv :: "string list" where
  "file_argv =
     [''peers_checker.py'', ''http://rpc'', ''peers.txt'', ''30'', ''top_peers.txt'',
      ''True'', ''100'', ''50'']"

definition rpc_argv :: "string list" where
  "rpc_argv =
     [''peers_checker.py'', ''http://rpc'', [], ''30'', ''top_peers.txt'',
      ''True'', ''100'', ''50'']"

subsection \<open>Vocabulary of the properties\<close>

text \<open>What a task contributes to the accepted records: its record, if it returned one.\<close>

definition accepted :: "exn + connection option \<Rightarrow> connection option" where
  "accepted outcome = (case outcome of Inr (Some r) \<Rightarrow> Some r | _ \<Rightarrow> None)"

text \<open>
  A malformed descriptor, by the tests of \<open>process_line\<close>: not two parts around \<open>@\<close>,
  not two parts around \<open>:\<close>, or a port that \<open>int\<close> rejects.
\<close>

definition malformed :: "string \<Rightarrow> bool" where
  "malformed line =
     (let parts = str_split CHR ''@'' line in
      if length parts = 2 then
        (let ip_port = str_split CHR '':'' (parts ! 1) in
         if length ip_port = 2 then isl (int_of_str (ip_port ! 1)) else True)
      else True)"

text \<open>The error record the collecting loop logs for a completed future, if any.\<close>

definition error_record :: "string \<times> (exn + connection option) \<Rightarrow> log_record option" where
  "error_record fut =
     (case fut of (line, outcome) \<Rightarrow>
        (case outcome of Inl e \<Rightarrow> Some (ErrorProcessingLine line e) | Inr r \<Rightarrow> None))"

fun is_error_record :: "log_record \<Rightarrow> bool" where
  "is_error_record (ErrorProcessingLine line e) = True"
| "is_error_record (Processed k n) = False"

section \<open>Properties\<close>

text \<open>The unfoldings that evaluate the model on a concrete input.\<close>

lemmas string_eval =
  strip_def is_space_def int_strip_def is_int_space_def is_digit_def digit_val_def
  int_max_str_digits_def int_of_str_def
  str_int_def str_nat.simps replace.simps lower_def lower_char_def

lemmas probe_eval =
  process_line_def check_connection_def latency_ok_def int_of_latency_def trunc_def
  get_latest_block_height_def read_status_def format_json_def status_doc_def steady_world_def
  node_world_def bad_host_world_def

lemmas file_eval =
  save_top_connections_def save_ids_only_def save_moniker_info_def top_connections_def
  sort_reverse_def slice_to_def peer_def all_writable_def

subsection \<open>One descriptor\<close>

lemma length_two_iff: "length xs = 2 \<longleftrightarrow> (\<exists>a b. xs = [a, b])"
  by (cases xs; cases "tl xs") (auto simp: length_Suc_conv)

lemma check_connection_cases:
  "check_connection w ip port = Inr (s, l) \<Longrightarrow>
     (s \<and> (\<exists>ms. l = Some ms \<and> tcp_connect w ip port = Inr ms)) \<or>
     (\<not> s \<and> l = None \<and> tcp_connect w ip port = Inl OSError)"
  by (auto simp: check_connection_def split: sum.splits if_splits)

text \<open>
  A record is returned only after the descriptor was parsed, the connection was made
  within the latency bound, the status was read and the height was within tolerance.
\<close>

lemma process_line_accepts:
  assumes "process_line w line e ml d = Inr (Some r)"
  shows "\<exists>idp hp ip ps port ms bh moniker node_id.
           str_split CHR ''@'' line = [idp, hp] \<and> str_split CHR '':'' hp = [ip, ps] \<and>
           int_of_str ps = Inr port \<and> tcp_connect w ip port = Inr ms \<and>
           (\<forall>m. ml = Some m \<longrightarrow> ms \<le> of_int m) \<and>
           get_latest_block_height w ip (port + 1) = Inr (Some bh, moniker, node_id) \<and>
           \<bar>bh - e\<bar> \<le> d \<and>
           r = (line, bh,
                \<lparr> mi_moniker = moniker, mi_node_id = node_id, mi_ip = ip, mi_port = port,
                  mi_full_peer = format_json w node_id @ ''@'' @ ip @ '':'' @ str_int port,
                  mi_latency = trunc ms \<rparr>)"
  using assms
  unfolding process_line_def Let_def
  by (auto simp: length_two_iff latency_ok_def int_of_latency_def
           split: if_splits sum.splits prod.splits option.splits
           dest!: check_connection_cases)

lemma trunc_le: "x \<le> of_int m \<Longrightarrow> trunc x \<le> m"
  by (auto simp: trunc_def floor_le_iff ceiling_le_iff)

text \<open>
  Claim C1. A record that \<open>process_line\<close> returns carries the height the status query
  reported for its host and port, and that height differs from the reference height by
  at most the accepted difference. A descriptor that parses and whose connection
  attempt does not raise, but whose reported height differs by more, yields \<open>None\<close>.
\<close>

theorem process_line_height_tolerance:
  "(\<forall>l bh info. process_line w line e ml d = Inr (Some (l, bh, info)) \<longrightarrow>
        l = line \<and>
        get_latest_block_height w (mi_ip info) (mi_port info + 1)
          = Inr (Some bh, mi_moniker info, mi_node_id info) \<and>
        \<bar>bh - e\<bar> \<le> d)
   \<and> (\<forall>idp hp ip ps port c bh moniker node_id.
        str_split CHR ''@'' line = [idp, hp] \<and> str_split CHR '':'' hp = [ip, ps] \<and>
        int_of_str ps = Inr port \<and> check_connection w ip port = Inr c \<and>
        get_latest_block_height w ip (port + 1) = Inr (Some bh, moniker, node_id) \<and>
        d < \<bar>bh - e\<bar>
        \<longrightarrow> process_line w line e ml d = Inr None)"
proof (intro conjI allI impI)
  fix l bh info
  assume "process_line w line e ml d = Inr (Some (l, bh, info))"
  from process_line_accepts [OF this]
  show "l = line"
    and "get_latest_block_height w (mi_ip info) (mi_port info + 1)
          = Inr (Some bh, mi_moniker info, mi_node_id info)"
    and "\<bar>bh - e\<bar> \<le> d"
    by auto
next
  fix idp hp ip ps port c bh moniker node_id
  assume a: "str_split CHR ''@'' line = [idp, hp] \<and> str_split CHR '':'' hp = [ip, ps] \<and>
        int_of_str ps = Inr port \<and> check_connection w ip port = Inr c \<and>
        get_latest_block_height w ip (port + 1) = Inr (Some bh, moniker, node_id) \<and>
        d < \<bar>bh - e\<bar>"
  obtain s lat where c: "c = (s, lat)" by (cases c)
  from a c have cc: "check_connection w ip port = Inr (s, lat)" by simp
  from check_connection_cases [OF cc] a c show "process_line w line e ml d = Inr None"
    unfolding process_line_def Let_def
    by (auto simp: latency_ok_def split: option.splits)
qed

theorem process_line_height_tolerance_witness:
  "process_line (steady_world 20 ''1003'') ''abc@1.2.3.4:26656'' 1000 (Some 50) 5
     = Inr (Some (''abc@1.2.3.4:26656'', 1003,
          \<lparr> mi_moniker = JStr ''node'', mi_node_id = JStr ''abc'', mi_ip = ''1.2.3.4'',
            mi_port = 26656, mi_full_peer = ''abc@1.2.3.4:26656'', mi_latency = 20 \<rparr>))
   \<and> \<bar>1003 - 1000\<bar> \<le> (5::int)
   \<and> (5::int) < \<bar>990 - 1000\<bar>
   \<and> process_line (steady_world 20 ''990'') ''abc@1.2.3.4:26656'' 1000 (Some 50) 5 = Inr None"
proof -
  let ?info = "\<lparr> mi_moniker = JStr ''node'', mi_node_id = JStr ''abc'', mi_ip = ''1.2.3.4'',
            mi_port = 26656, mi_full_peer = ''abc@1.2.3.4:26656'', mi_latency = 20 \<rparr>"
  have acc: "process_line (steady_world 20 ''1003'') ''abc@1.2.3.4:26656'' 1000 (Some 50) 5
     = Inr (Some (''abc@1.2.3.4:26656'', 1003, ?info))"
    by (simp add: probe_eval string_eval)
  have tol: "\<bar>1003 - 1000\<bar> \<le> (5::int)"
    using process_line_height_tolerance
      [of "steady_world 20 ''1003''" "''abc@1.2.3.4:26656''" 1000 "Some 50" 5] acc
    by blast
  have p1: "str_split CHR ''@'' ''abc@1.2.3.4:26656'' = [''abc'', ''1.2.3.4:26656'']" by simp
  have p2: "str_split CHR '':'' ''1.2.3.4:26656'' = [''1.2.3.4'', ''26656'']" by simp
  have p3: "int_of_str ''26656'' = Inr 26656" by (simp add: string_eval)
  have p4: "check_connection (steady_world 20 ''990'') ''1.2.3.4'' 26656 = Inr (True, Some 20)"
    by (simp add: probe_eval)
  have p5: "get_latest_block_height (steady_world 20 ''990'') ''1.2.3.4'' (26656 + 1)
              = Inr (Some 990, JStr ''node'', JStr ''abc'')"
    by (simp add: probe_eval string_eval)
  have p6: "(5::int) < \<bar>990 - 1000\<bar>" by simp
  have rej: "process_line (steady_world 20 ''990'') ''abc@1.2.3.4:26656'' 1000 (Some 50) 5 = Inr None"
    using process_line_height_tolerance
      [of "steady_world 20 ''990''" "''abc@1.2.3.4:26656''" 1000 "Some 50" 5] p1 p2 p3 p4 p5 p6
    by blast
  from acc tol p6 rej show ?thesis by blast
qed

lemma int_of_str_raises: "int_of_str s = Inl ex \<Longrightarrow> ex = ValueError"
  by (auto simp: int_of_str_def Let_def split: prod.splits if_splits)

lemma malformed_not_accepted: "malformed line \<Longrightarrow> accepted (process_line w line e ml d) = None"
  unfolding malformed_def process_line_def Let_def accepted_def
  by (auto split: if_splits sum.splits option.splits)

subsection \<open>The scheduler\<close>

lemma as_completed_distinct: "distinct (as_completed sched n)"
  by (auto simp: as_completed_def)

lemma as_completed_set: "set (as_completed sched n) = {0..<n}"
  by (auto simp: as_completed_def)

lemma as_completed_mset: "mset (as_completed sched n) = mset [0..<n]"
  by (rule iffD1 [OF set_eq_iff_mset_eq_distinct])
     (simp_all add: as_completed_distinct as_completed_set)

lemma map_filter_map: "List.map_filter f (map g xs) = List.map_filter (\<lambda>x. f (g x)) xs"
  by (induction xs) (simp_all add: map_filter_simps split: option.splits)

lemma map_filter_skip:
  "(\<And>x. x \<in> set xs \<Longrightarrow> \<not> P x \<Longrightarrow> f x = None) \<Longrightarrow>
     List.map_filter f (filter P xs) = List.map_filter f xs"
  by (induction xs) (auto simp: map_filter_simps split: option.splits)

lemma collect_connections:
  "successful_connections (foldl (collect_step n) st futs)
     = successful_connections st @ List.map_filter (\<lambda>fut. accepted (snd fut)) futs"
  by (induction futs arbitrary: st)
     (auto simp: collect_step_def accepted_def map_filter_simps Let_def
           split: sum.splits option.splits)

lemma collect_monikers:
  "moniker_infos (foldl (collect_step n) st futs)
     = moniker_infos st @ map (\<lambda>r. snd (snd r)) (List.map_filter (\<lambda>fut. accepted (snd fut)) futs)"
  by (induction futs arbitrary: st)
     (auto simp: collect_step_def accepted_def map_filter_simps Let_def
           split: sum.splits option.splits)

lemma collect_errors:
  "filter is_error_record (log (foldl (collect_step n) st futs))
     = filter is_error_record (log st) @ List.map_filter error_record futs"
  by (induction futs arbitrary: st)
     (auto simp: collect_step_def error_record_def map_filter_simps Let_def
           split: sum.splits option.splits)

lemma collect_count:
  "processed_count (foldl (collect_step n) st futs)
     = processed_count st + length (filter (\<lambda>fut. \<not> isl (snd fut)) futs)"
  by (induction futs arbitrary: st)
     (auto simp: collect_step_def Let_def split: sum.splits option.splits)

lemma check_nodes_connections:
  "successful_connections (check_nodes net sched lines e ml d)
     = List.map_filter (\<lambda>i. accepted (process_line (net i) (lines ! i) e ml d))
         (as_completed sched (length lines))"
  by (simp add: check_nodes_def Let_def collect_connections map_filter_map)

lemma check_nodes_monikers:
  "moniker_infos (check_nodes net sched lines e ml d)
     = map (\<lambda>r. snd (snd r)) (successful_connections (check_nodes net sched lines e ml d))"
  by (simp add: check_nodes_def Let_def collect_connections collect_monikers)

lemma check_nodes_errors:
  "filter is_error_record (log (check_nodes net sched lines e ml d))
     = List.map_filter (\<lambda>i. error_record (lines ! i, process_line (net i) (lines ! i) e ml d))
         (as_completed sched (length lines))"
  by (simp add: check_nodes_def Let_def collect_errors map_filter_map)

lemma check_nodes_count:
  "processed_count (check_nodes net sched lines e ml d)
     = length (filter (\<lambda>i. \<not> isl (process_line (net i) (lines ! i) e ml d))
         (as_completed sched (length lines)))"
  by (simp add: check_nodes_def Let_def collect_count filter_map comp_def)

lemma map_filter_mem: "x \<in> set xs \<Longrightarrow> f x = Some y \<Longrightarrow> y \<in> set (List.map_filter f xs)"
  by (induction xs) (auto simp: map_filter_simps split: option.splits)

text \<open>
  Claim C5. With a maximum latency configured, a record that \<open>process_line\<close> returns
  comes from a connection measured within the bound, and the latency it carries (the
  measurement truncated to an integer) is within the bound too. A descriptor that
  parses and whose connection takes longer than the bound yields \<open>None\<close>.
\<close>

theorem process_line_latency_bound:
  "(\<forall>m l bh info. process_line w line e (Some m) d = Inr (Some (l, bh, info)) \<longrightarrow>
        (\<exists>ms. tcp_connect w (mi_ip info) (mi_port info) = Inr ms \<and> ms \<le> of_int m \<and>
              mi_latency info = trunc ms) \<and>
        mi_latency info \<le> m)
   \<and> (\<forall>m idp hp ip ps port ms.
        str_split CHR ''@'' line = [idp, hp] \<and> str_split CHR '':'' hp = [ip, ps] \<and>
        int_of_str ps = Inr port \<and> tcp_connect w ip port = Inr ms \<and> of_int m < ms
        \<longrightarrow> process_line w line e (Some m) d = Inr None)"
proof (intro conjI allI impI)
  fix m l bh info
  assume "process_line w line e (Some m) d = Inr (Some (l, bh, info))"
  from process_line_accepts [OF this]
  obtain ms where ms: "tcp_connect w (mi_ip info) (mi_port info) = Inr ms"
      "ms \<le> of_int m" "mi_latency info = trunc ms"
    by auto
  then show "\<exists>ms. tcp_connect w (mi_ip info) (mi_port info) = Inr ms \<and> ms \<le> of_int m \<and>
              mi_latency info = trunc ms"
    by blast
  from ms show "mi_latency info \<le> m"
    by (simp add: trunc_le)
next
  fix m idp hp ip ps port ms
  assume "str_split CHR ''@'' line = [idp, hp] \<and> str_split CHR '':'' hp = [ip, ps] \<and>
        int_of_str ps = Inr port \<and> tcp_connect w ip port = Inr ms \<and> of_int m < ms"
  then show "process_line w line e (Some m) d = Inr None"
    unfolding process_line_def Let_def
    by (simp add: check_connection_def latency_ok_def)
qed

theorem process_line_latency_bound_witness:
  "process_line (steady_world 20 ''1003'') ''abc@1.2.3.4:26656'' 1000 (Some 50) 5
     = Inr (Some (''abc@1.2.3.4:26656'', 1003,
          \<lparr> mi_moniker = JStr ''node'', mi_node_id = JStr ''abc'', mi_ip = ''1.2.3.4'',
            mi_port = 26656, mi_full_peer = ''abc@1.2.3.4:26656'', mi_latency = 20 \<rparr>))
   \<and> (20::int) \<le> 50
   \<and> (of_int 50 :: rat) < 75
   \<and> process_line (steady_world 75 ''1000'') ''abc@1.2.3.4:26656'' 1000 (Some 50) 5 = Inr None"
proof -
  let ?info = "\<lparr> mi_moniker = JStr ''node'', mi_node_id = JStr ''abc'', mi_ip = ''1.2.3.4'',
            mi_port = 26656, mi_full_peer = ''abc@1.2.3.4:26656'', mi_latency = 20 \<rparr>"
  have acc: "process_line (steady_world 20 ''1003'') ''abc@1.2.3.4:26656'' 1000 (Some 50) 5
     = Inr (Some (''abc@1.2.3.4:26656'', 1003, ?info))"
    by (simp add: probe_eval string_eval)
  have "mi_latency ?info \<le> 50"
    using process_line_latency_bound
      [of "steady_world 20 ''1003''" "''abc@1.2.3.4:26656''" 1000 5] acc
    by blast
  then have bound: "(20::int) \<le> 50" by simp
  have p1: "str_split CHR ''@'' ''abc@1.2.3.4:26656'' = [''abc'', ''1.2.3.4:26656'']" by simp
  have p2: "str_split CHR '':'' ''1.2.3.4:26656'' = [''1.2.3.4'', ''26656'']" by simp
  have p3: "int_of_str ''26656'' = Inr 26656" by (simp add: string_eval)
  have p4: "tcp_connect (steady_world 75 ''1000'') ''1.2.3.4'' 26656 = Inr 75"
    by (simp add: steady_world_def)
  have p5: "(of_int 50 :: rat) < 75" by simp
  have rej: "process_line (steady_world 75 ''1000'') ''abc@1.2.3.4:26656'' 1000 (Some 50) 5 = Inr None"
    using process_line_latency_bound
      [of "steady_world 75 ''1000''" "''abc@1.2.3.4:26656''" 1000 5] p1 p2 p3 p4 p5
    by blast
  from acc bound p5 rej show ?thesis by blast
qed

subsection \<open>Malformed descriptors\<close>

text \<open>
  What the code does with a malformed descriptor. One with the wrong number of parts
  around \<open>@\<close> or around \<open>:\<close> makes \<open>process_line\<close> return \<open>None\<close>; one whose port \<open>int\<close>
  rejects makes it raise \<open>ValueError\<close>. In \<open>check_nodes\<close> a malformed descriptor
  contributes no record, what its task raises is logged with the descriptor, and the
  accepted records are those of the other descriptors, in completion order.
\<close>

lemma malformed_descriptor_excluded:
  "(length (str_split CHR ''@'' line) \<noteq> 2 \<longrightarrow> process_line w line e ml d = Inr None)
   \<and> (\<forall>idp hp. str_split CHR ''@'' line = [idp, hp] \<and> length (str_split CHR '':'' hp) \<noteq> 2
         \<longrightarrow> process_line w line e ml d = Inr None)
   \<and> (\<forall>idp hp ip ps ex. str_split CHR ''@'' line = [idp, hp] \<and>
         str_split CHR '':'' hp = [ip, ps] \<and> int_of_str ps = Inl ex
         \<longrightarrow> process_line w line e ml d = Inl ValueError)
   \<and> (\<forall>i. i < length lines \<and> malformed (lines ! i) \<longrightarrow>
         accepted (process_line (net i) (lines ! i) e ml d) = None \<and>
         (\<forall>ex. process_line (net i) (lines ! i) e ml d = Inl ex \<longrightarrow>
            ErrorProcessingLine (lines ! i) ex \<in> set (log (check_nodes net sched lines e ml d))))
   \<and> successful_connections (check_nodes net sched lines e ml d)
       = List.map_filter (\<lambda>i. accepted (process_line (net i) (lines ! i) e ml d))
           (filter (\<lambda>i. \<not> malformed (lines ! i)) (as_completed sched (length lines)))"
proof (intro conjI allI impI)
  assume "length (str_split CHR ''@'' line) \<noteq> 2"
  then show "process_line w line e ml d = Inr None"
    by (simp add: process_line_def)
next
  fix idp hp
  assume "str_split CHR ''@'' line = [idp, hp] \<and> length (str_split CHR '':'' hp) \<noteq> 2"
  then show "process_line w line e ml d = Inr None"
    by (simp add: process_line_def)
next
  fix idp hp ip ps ex
  assume a: "str_split CHR ''@'' line = [idp, hp] \<and>
         str_split CHR '':'' hp = [ip, ps] \<and> int_of_str ps = Inl ex"
  then have "ex = ValueError" by (auto dest: int_of_str_raises)
  with a show "process_line w line e ml d = Inl ValueError"
    by (simp add: process_line_def)
next
  fix i
  assume "i < length lines \<and> malformed (lines ! i)"
  then show "accepted (process_line (net i) (lines ! i) e ml d) = None"
    by (simp add: malformed_not_accepted)
next
  fix i ex
  assume i: "i < length lines \<and> malformed (lines ! i)"
    and ex: "process_line (net i) (lines ! i) e ml d = Inl ex"
  from i have "i \<in> set (as_completed sched (length lines))"
    by (simp add: as_completed_set)
  moreover from ex have "error_record (lines ! i, process_line (net i) (lines ! i) e ml d)
      = Some (ErrorProcessingLine (lines ! i) ex)"
    by (simp add: error_record_def)
  ultimately have "ErrorProcessingLine (lines ! i) ex
      \<in> set (filter is_error_record (log (check_nodes net sched lines e ml d)))"
    unfolding check_nodes_errors by (rule map_filter_mem)
  then show "ErrorProcessingLine (lines ! i) ex \<in> set (log (check_nodes net sched lines e ml d))"
    by simp
next
  show "successful_connections (check_nodes net sched lines e ml d)
       = List.map_filter (\<lambda>i. accepted (process_line (net i) (lines ! i) e ml d))
           (filter (\<lambda>i. \<not> malformed (lines ! i)) (as_completed sched (length lines)))"
    unfolding check_nodes_connections
    by (rule sym, rule map_filter_skip) (simp add: malformed_not_accepted)
qed

text \<open>
  Claim C3 against the code. A descriptor that lacks the \<open>@\<close> or the \<open>:\<close> is discarded
  silently: \<open>process_line\<close> returns \<open>None\<close>. A descriptor whose port is not a number is
  not: \<open>process_line\<close> raises \<open>ValueError\<close>, the collecting loop logs an error for the
  descriptor and does not count it as processed, so that of two descriptors one is
  counted. The other descriptor is still evaluated and accepted.
\<close>

theorem malformed_port_not_discarded:
  "process_line (steady_world 20 ''1003'') ''nohost'' 1000 None 5 = Inr None
   \<and> process_line (steady_world 20 ''1003'') ''a@b'' 1000 None 5 = Inr None
   \<and> process_line (steady_world 20 ''1003'') ''abc@1.2.3.4:x'' 1000 None 5 = Inl ValueError
   \<and> check_nodes (steady_net 20 ''1003'') [1, 0]
         [''abc@1.2.3.4:x'', ''abc@1.2.3.4:26656''] 1000 None 5
       = \<lparr> successful_connections =
             [(''abc@1.2.3.4:26656'', 1003,
               \<lparr> mi_moniker = JStr ''node'', mi_node_id = JStr ''abc'', mi_ip = ''1.2.3.4'',
                 mi_port = 26656, mi_full_peer = ''abc@1.2.3.4:26656'', mi_latency = 20 \<rparr>)],
           moniker_infos =
             [\<lparr> mi_moniker = JStr ''node'', mi_node_id = JStr ''abc'', mi_ip = ''1.2.3.4'',
                mi_port = 26656, mi_full_peer = ''abc@1.2.3.4:26656'', mi_latency = 20 \<rparr>],
           processed_count = 1,
           log = [Processed 1 2, ErrorProcessingLine ''abc@1.2.3.4:x'' ValueError] \<rparr>"
proof -
  let ?w = "steady_world 20 ''1003''"
  have a: "process_line ?w ''nohost'' 1000 None 5 = Inr None"
    by (simp add: process_line_def)
  have b: "process_line ?w ''a@b'' 1000 None 5 = Inr None"
    by (simp add: process_line_def)
  have c: "process_line ?w ''abc@1.2.3.4:x'' 1000 None 5 = Inl ValueError"
    by (simp add: process_line_def string_eval)
  have r: "process_line ?w ''abc@1.2.3.4:26656'' 1000 None 5
     = Inr (Some (''abc@1.2.3.4:26656'', 1003,
           \<lparr> mi_moniker = JStr ''node'', mi_node_id = JStr ''abc'', mi_ip = ''1.2.3.4'',
             mi_port = 26656, mi_full_peer = ''abc@1.2.3.4:26656'', mi_latency = 20 \<rparr>))"
    by (simp add: probe_eval string_eval)
  have order: "as_completed [Suc 0, 0] (Suc (Suc 0)) = [Suc 0, 0]"
    by (simp add: as_completed_def)
  have d: "check_nodes (steady_net 20 ''1003'') [1, 0]
         [''abc@1.2.3.4:x'', ''abc@1.2.3.4:26656''] 1000 None 5
       = \<lparr> successful_connections =
             [(''abc@1.2.3.4:26656'', 1003,
               \<lparr> mi_moniker = JStr ''node'', mi_node_id = JStr ''abc'', mi_ip = ''1.2.3.4'',
                 mi_port = 26656, mi_full_peer = ''abc@1.2.3.4:26656'', mi_latency = 20 \<rparr>)],
           moniker_infos =
             [\<lparr> mi_moniker = JStr ''node'', mi_node_id = JStr ''abc'', mi_ip = ''1.2.3.4'',
                mi_port = 26656, mi_full_peer = ''abc@1.2.3.4:26656'', mi_latency = 20 \<rparr>],
           processed_count = 1,
           log = [Processed 1 2, ErrorProcessingLine ''abc@1.2.3.4:x'' ValueError] \<rparr>"
    by (simp add: check_nodes_def order steady_net_def c r collect_step_def)
  from a b c d show ?thesis by blast
qed

subsection \<open>Failing tasks\<close>

lemma length_filter_mset: "mset xs = mset ys \<Longrightarrow> length (filter P xs) = length (filter P ys)"
  by (metis mset_filter size_mset)

text \<open>
  Claim C8. \<open>check_nodes\<close> collects every task once, whatever the tasks do. A task
  whose evaluation raises is logged as an error with its descriptor and contributes no
  record; every task that returns a record contributes it; the accepted records are
  those of the tasks in completion order, and the count of processed entries is the
  number of tasks that did not raise.
\<close>

theorem check_nodes_isolates_failures:
  "mset (as_completed sched (length lines)) = mset [0..<length lines]
   \<and> successful_connections (check_nodes net sched lines e ml d)
       = List.map_filter (\<lambda>i. accepted (process_line (net i) (lines ! i) e ml d))
           (as_completed sched (length lines))
   \<and> (\<forall>i ex. i < length lines \<and> process_line (net i) (lines ! i) e ml d = Inl ex \<longrightarrow>
         ErrorProcessingLine (lines ! i) ex \<in> set (log (check_nodes net sched lines e ml d)) \<and>
         accepted (process_line (net i) (lines ! i) e ml d) = None)
   \<and> (\<forall>i r. i < length lines \<and> process_line (net i) (lines ! i) e ml d = Inr (Some r) \<longrightarrow>
         r \<in> set (successful_connections (check_nodes net sched lines e ml d)))
   \<and> processed_count (check_nodes net sched lines e ml d)
       = length (filter (\<lambda>i. \<not> isl (process_line (net i) (lines ! i) e ml d)) [0..<length lines])"
proof (intro conjI allI impI)
  show "mset (as_completed sched (length lines)) = mset [0..<length lines]"
    by (rule as_completed_mset)
next
  show "successful_connections (check_nodes net sched lines e ml d)
       = List.map_filter (\<lambda>i. accepted (process_line (net i) (lines ! i) e ml d))
           (as_completed sched (length lines))"
    by (rule check_nodes_connections)
next
  fix i ex
  assume a: "i < length lines \<and> process_line (net i) (lines ! i) e ml d = Inl ex"
  then have "i \<in> set (as_completed sched (length lines))"
    by (simp add: as_completed_set)
  moreover from a have "error_record (lines ! i, process_line (net i) (lines ! i) e ml d)
      = Some (ErrorProcessingLine (lines ! i) ex)"
    by (simp add: error_record_def)
  ultimately have "ErrorProcessingLine (lines ! i) ex
      \<in> set (filter is_error_record (log (check_nodes net sched lines e ml d)))"
    unfolding check_nodes_errors by (rule map_filter_mem)
  then show "ErrorProcessingLine (lines ! i) ex \<in> set (log (check_nodes net sched lines e ml d))"
    by simp
  from a show "accepted (process_line (net i) (lines ! i) e ml d) = None"
    by (simp add: accepted_def)
next
  fix i r
  assume a: "i < length lines \<and> process_line (net i) (lines ! i) e ml d = Inr (Some r)"
  then have "i \<in> set (as_completed sched (length lines))"
    by (simp add: as_completed_set)
  moreover from a have "accepted (process_line (net i) (lines ! i) e ml d) = Some r"
    by (simp add: accepted_def)
  ultimately show "r \<in> set (successful_connections (check_nodes net sched lines e ml d))"
    unfolding check_nodes_connections by (rule map_filter_mem)
next
  show "processed_count (check_nodes net sched lines e ml d)
       = length (filter (\<lambda>i. \<not> isl (process_line (net i) (lines ! i) e ml d)) [0..<length lines])"
    unfolding check_nodes_count
    by (rule length_filter_mset) (rule as_completed_mset)
qed

theorem check_nodes_isolates_failures_witness:
  "process_line (mixed_net 0) ''a@x..y:26656'' 1000 None 5 = Inl ValueError
   \<and> ErrorProcessingLine ''a@x..y:26656'' ValueError
        \<in> set (log (check_nodes mixed_net [0, 1] [''a@x..y:26656'', ''abc@1.2.3.4:26656''] 1000 None 5))
   \<and> (''abc@1.2.3.4:26656'', 1003,
           \<lparr> mi_moniker = JStr ''node'', mi_node_id = JStr ''abc'', mi_ip = ''1.2.3.4'',
             mi_port = 26656, mi_full_peer = ''abc@1.2.3.4:26656'', mi_latency = 20 \<rparr>)
        \<in> set (successful_connections
                 (check_nodes mixed_net [0, 1] [''a@x..y:26656'', ''abc@1.2.3.4:26656''] 1000 None 5))"
proof -
  let ?lines = "[''a@x..y:26656'', ''abc@1.2.3.4:26656'']"
  let ?run = "check_nodes mixed_net [0, 1] ?lines 1000 None 5"
  let ?r = "(''abc@1.2.3.4:26656'', 1003,
           \<lparr> mi_moniker = JStr ''node'', mi_node_id = JStr ''abc'', mi_ip = ''1.2.3.4'',
             mi_port = 26656, mi_full_peer = ''abc@1.2.3.4:26656'', mi_latency = (20::int) \<rparr>)"
  note run = check_nodes_isolates_failures
    [where lines = ?lines and net = mixed_net and sched = "[0, 1]"
       and e = 1000 and ml = None and d = 5]
  have r0: "process_line (mixed_net 0) ''a@x..y:26656'' 1000 None 5 = Inl ValueError"
    by (simp add: mixed_net_def probe_eval string_eval)
  then have h0: "0 < length ?lines \<and> process_line (mixed_net 0) (?lines ! 0) 1000 None 5 = Inl ValueError"
    by simp
  from run h0 have "ErrorProcessingLine (?lines ! 0) ValueError \<in> set (log ?run)"
    by blast
  then have l0: "ErrorProcessingLine ''a@x..y:26656'' ValueError \<in> set (log ?run)"
    by simp
  have "process_line (mixed_net 1) ''abc@1.2.3.4:26656'' 1000 None 5 = Inr (Some ?r)"
    by (simp add: mixed_net_def probe_eval string_eval)
  then have h1: "1 < length ?lines \<and> process_line (mixed_net 1) (?lines ! 1) 1000 None 5 = Inr (Some ?r)"
    by simp
  from run h1 have l1: "?r \<in> set (successful_connections ?run)"
    by blast
  from r0 l0 l1 show ?thesis by blast
qed

subsection \<open>Ranking and writing\<close>

lemma sort_reverse_mset: "mset (sort_reverse key xs) = mset xs"
  by (simp add: sort_reverse_def)

lemma sort_reverse_length: "length (sort_reverse key xs) = length xs"
  by (simp add: sort_reverse_def)

lemma sort_reverse_sorted: "sorted_wrt (\<lambda>a b. key b \<le> key a) (sort_reverse key xs)"
proof -
  have "sorted (map key (sort_key key (rev xs)))" by simp
  then have "sorted_wrt (\<lambda>a b. key a \<le> key b) (sort_key key (rev xs))"
    by (simp add: sorted_wrt_map)
  then show ?thesis
    by (simp add: sort_reverse_def sorted_wrt_rev)
qed

lemma sort_reverse_stable:
  "filter (\<lambda>x. key x = k) (sort_reverse key xs) = filter (\<lambda>x. key x = k) xs"
  by (simp add: sort_reverse_def rev_filter [symmetric] sort_key_stable)

lemma slice_to_nonneg: "0 \<le> n \<Longrightarrow> slice_to xs n = take (nat n) xs"
  by (simp add: slice_to_def)

lemma write_entries_strs:
  "write_entries first_entry (map JStr ss) buf
     = (None, buf @ (if first_entry \<or> ss = [] then [] else '','') @ str_join CHR '','' ss)"
proof (induction ss arbitrary: first_entry buf)
  case Nil
  then show ?case by simp
next
  case (Cons s ss)
  have "write_entries first_entry (map JStr (s # ss)) buf
          = write_entries False (map JStr ss) (buf @ (if first_entry then s else CHR '','' # s))"
    by simp
  also have "\<dots> = (None, (buf @ (if first_entry then s else CHR '','' # s))
                       @ (if ss = [] then [] else '','') @ str_join CHR '','' ss)"
    using Cons.IH [of False] by simp
  also have "\<dots> = (None, buf @ (if first_entry \<or> s # ss = [] then [] else '','')
                       @ str_join CHR '','' (s # ss))"
    by (cases ss) simp_all
  finally show ?case .
qed

lemma write_entries_None:
  "write_entries first_entry vs buf = (None, b) \<Longrightarrow> \<exists>ss. vs = map JStr ss"
proof (induction first_entry vs buf rule: write_entries.induct)
  case (1 first_entry buf)
  then show ?case by simp
next
  case (2 first_entry s rest buf)
  then obtain ss where "rest = map JStr ss" by auto
  then have "JStr s # rest = map JStr (s # ss)" by simp
  then show ?case by (rule exI)
qed simp_all

lemma replace_absent:
  "old \<noteq> [] \<Longrightarrow> \<not> str_contains old s \<Longrightarrow> replace old new s = s"
  by (induction s) (simp_all add: replace.simps)

lemma save_ids_only_done:
  assumes "save_ids_only writable fs conns out = (None, fs')"
  shows "\<exists>ids. map (\<lambda>c. mi_node_id (snd (snd c))) conns = map JStr ids \<and>
               fs' = fs(replace ''.txt'' ''_ids_only.txt'' out \<mapsto> Text (str_join CHR '','' ids))"
proof -
  let ?vs = "map (\<lambda>c. mi_node_id (snd (snd c))) conns"
  obtain err buf where w: "write_entries True ?vs [] = (err, buf)"
    by (cases "write_entries True ?vs []")
  with assms have err: "err = None"
    and fs': "fs' = fs(replace ''.txt'' ''_ids_only.txt'' out \<mapsto> Text buf)"
    by (auto simp: save_ids_only_def Let_def split: if_splits)
  from w err obtain ids where ids: "?vs = map JStr ids"
    by (auto dest: write_entries_None)
  with w have "buf = str_join CHR '','' ids"
    by (simp add: write_entries_strs)
  with ids fs' show ?thesis by blast
qed

lemma save_top_connections_done:
  assumes "save_top_connections writable fs conns out top_n = (Inr n, fs', cs)"
  shows "n = length (top_connections conns top_n) \<and>
         cs = sort_reverse (\<lambda>x. fst (snd x)) conns \<and>
         (\<exists>ids. map (\<lambda>c. mi_node_id (snd (snd c))) (top_connections conns top_n) = map JStr ids \<and>
            fs' = (fs(out \<mapsto> Text (str_join CHR '','' (map fst (top_connections conns top_n)))))
                    (replace ''.txt'' ''_ids_only.txt'' out \<mapsto> Text (str_join CHR '','' ids)))"
proof -
  let ?top = "top_connections conns top_n"
  have prim: "write_entries True (map (\<lambda>conn. JStr (fst conn)) ?top) []
                = (None, str_join CHR '','' (map fst ?top))"
    using write_entries_strs [of True "map fst ?top" "[]"] by (simp add: comp_def)
  let ?fs1 = "fs(out \<mapsto> Text (str_join CHR '','' (map fst ?top)))"
  obtain err2 fs2 where ids: "save_ids_only writable ?fs1 ?top out = (err2, fs2)"
    by (cases "save_ids_only writable ?fs1 ?top out")
  from assms prim ids have "err2 = None" and "fs' = fs2" and "n = length ?top"
    and "cs = sort_reverse (\<lambda>x. fst (snd x)) conns"
    by (auto simp: save_top_connections_def top_connections_def Let_def
             split: if_splits option.splits)
  with ids save_ids_only_done [of writable ?fs1 ?top out fs2] show ?thesis
    by auto
qed

lemma top_connections_subset: "set (top_connections conns top_n) \<subseteq> set conns"
proof -
  have "set (sort_reverse (\<lambda>x. fst (snd x)) conns) = set conns"
    by (simp add: sort_reverse_def)
  then show ?thesis
    by (auto simp: top_connections_def slice_to_def dest: in_set_takeD)
qed

lemma all_strings: "(\<forall>v \<in> set vs. \<exists>s. v = JStr s) \<Longrightarrow> \<exists>ss. vs = map JStr ss"
proof (induction vs)
  case Nil
  then show ?case by simp
next
  case (Cons v vs)
  then obtain s ss where "v = JStr s" and "vs = map JStr ss" by auto
  then have "v # vs = map JStr (s # ss)" by simp
  then show ?case by (rule exI)
qed

lemma save_top_connections_returns:
  assumes ids: "\<forall>c \<in> set conns. \<exists>s. mi_node_id (snd (snd c)) = JStr s"
    and w1: "writable out" and w2: "writable (replace ''.txt'' ''_ids_only.txt'' out)"
  shows "\<exists>fs'. save_top_connections writable fs conns out top_n
           = (Inr (length (top_connections conns top_n)), fs',
              sort_reverse (\<lambda>x. fst (snd x)) conns)"
proof -
  let ?top = "top_connections conns top_n"
  have prim: "write_entries True (map (\<lambda>conn. JStr (fst conn)) ?top) []
                = (None, str_join CHR '','' (map fst ?top))"
    using write_entries_strs [of True "map fst ?top" "[]"] by (simp add: comp_def)
  from ids top_connections_subset [of conns top_n]
  have "\<forall>v \<in> set (map (\<lambda>c. mi_node_id (snd (snd c))) ?top). \<exists>s. v = JStr s"
    by auto
  then obtain ss where ss: "map (\<lambda>c. mi_node_id (snd (snd c))) ?top = map JStr ss"
    using all_strings by blast
  have sec: "write_entries True (map (\<lambda>c. mi_node_id (snd (snd c))) ?top) []
                = (None, str_join CHR '','' ss)"
    unfolding ss using write_entries_strs [of True ss "[]"] by simp
  from prim sec w1 w2 show ?thesis
    by (simp add: save_top_connections_def save_ids_only_def top_connections_def Let_def)
qed

text \<open>
  Claim C2. For a non-negative \<open>top_n\<close>, the selection of \<open>save_top_connections\<close> is the
  first \<open>top_n\<close> records of the list sorted by height, highest first. The sort permutes
  the records and is stable: records of equal height keep the order in which they were
  accepted. The selection has \<open>min top_n (length conns)\<close> records and is the whole sorted
  list when \<open>top_n\<close> is at least the number of records. When the function returns, the
  files it has written hold the descriptors and the identities of exactly these records,
  in this order, the value returned is their number and the caller's list is the sorted
  one; it returns when the identities are strings and both files can be opened.
\<close>

theorem top_connections_ranked:
  assumes "0 \<le> top_n"
  shows "top_connections conns top_n = take (nat top_n) (sort_reverse (\<lambda>x. fst (snd x)) conns)
   \<and> sorted_wrt (\<lambda>a b. fst (snd b) \<le> fst (snd a)) (sort_reverse (\<lambda>x. fst (snd x)) conns)
   \<and> mset (sort_reverse (\<lambda>x. fst (snd x)) conns) = mset conns
   \<and> (\<forall>h. filter (\<lambda>c. fst (snd c) = h) (sort_reverse (\<lambda>x. fst (snd x)) conns)
            = filter (\<lambda>c. fst (snd c) = h) conns)
   \<and> length (top_connections conns top_n) = min (nat top_n) (length conns)
   \<and> (int (length conns) \<le> top_n \<longrightarrow>
         top_connections conns top_n = sort_reverse (\<lambda>x. fst (snd x)) conns)
   \<and> (\<forall>writable fs out n fs' cs.
         save_top_connections writable fs conns out top_n = (Inr n, fs', cs) \<longrightarrow>
         n = min (nat top_n) (length conns) \<and> cs = sort_reverse (\<lambda>x. fst (snd x)) conns \<and>
         (\<exists>ids. map (\<lambda>c. mi_node_id (snd (snd c)))
                  (take (nat top_n) (sort_reverse (\<lambda>x. fst (snd x)) conns)) = map JStr ids \<and>
            fs' = (fs(out \<mapsto> Text (str_join CHR '',''
                      (map fst (take (nat top_n) (sort_reverse (\<lambda>x. fst (snd x)) conns))))))
                    (replace ''.txt'' ''_ids_only.txt'' out \<mapsto> Text (str_join CHR '','' ids))))
   \<and> (\<forall>writable fs out.
         (\<forall>c \<in> set conns. \<exists>s. mi_node_id (snd (snd c)) = JStr s) \<and> writable out \<and>
         writable (replace ''.txt'' ''_ids_only.txt'' out) \<longrightarrow>
         (\<exists>fs'. save_top_connections writable fs conns out top_n
            = (Inr (min (nat top_n) (length conns)), fs',
               sort_reverse (\<lambda>x. fst (snd x)) conns)))"
proof -
  let ?sorted = "sort_reverse (\<lambda>x. fst (snd x)) conns"
  from assms have top: "top_connections conns top_n = take (nat top_n) ?sorted"
    by (simp add: top_connections_def slice_to_nonneg)
  have srt: "sorted_wrt (\<lambda>a b. fst (snd b) \<le> fst (snd a)) ?sorted"
    by (rule sort_reverse_sorted)
  have perm: "mset ?sorted = mset conns"
    by (rule sort_reverse_mset)
  have stable: "\<forall>h. filter (\<lambda>c. fst (snd c) = h) ?sorted = filter (\<lambda>c. fst (snd c) = h) conns"
    by (simp add: sort_reverse_stable)
  from top have len: "length (top_connections conns top_n) = min (nat top_n) (length conns)"
    by (simp add: sort_reverse_length min.commute)
  from top have full: "int (length conns) \<le> top_n \<longrightarrow> top_connections conns top_n = ?sorted"
    by (simp add: sort_reverse_length)
  have ret: "\<forall>writable fs out n fs' cs.
         save_top_connections writable fs conns out top_n = (Inr n, fs', cs) \<longrightarrow>
         n = min (nat top_n) (length conns) \<and> cs = ?sorted \<and>
         (\<exists>ids. map (\<lambda>c. mi_node_id (snd (snd c))) (take (nat top_n) ?sorted) = map JStr ids \<and>
            fs' = (fs(out \<mapsto> Text (str_join CHR '','' (map fst (take (nat top_n) ?sorted)))))
                    (replace ''.txt'' ''_ids_only.txt'' out \<mapsto> Text (str_join CHR '','' ids)))"
  proof (intro allI impI)
    fix writable fs out n fs' cs
    assume "save_top_connections writable fs conns out top_n = (Inr n, fs', cs)"
    from save_top_connections_done [OF this]
    show "n = min (nat top_n) (length conns) \<and> cs = ?sorted \<and>
         (\<exists>ids. map (\<lambda>c. mi_node_id (snd (snd c))) (take (nat top_n) ?sorted) = map JStr ids \<and>
            fs' = (fs(out \<mapsto> Text (str_join CHR '','' (map fst (take (nat top_n) ?sorted)))))
                    (replace ''.txt'' ''_ids_only.txt'' out \<mapsto> Text (str_join CHR '','' ids)))"
      unfolding top len [unfolded top] by (simp add: sort_reverse_length min.commute)
  qed
  have tot: "\<forall>writable fs out.
         (\<forall>c \<in> set conns. \<exists>s. mi_node_id (snd (snd c)) = JStr s) \<and> writable out \<and>
         writable (replace ''.txt'' ''_ids_only.txt'' out) \<longrightarrow>
         (\<exists>fs'. save_top_connections writable fs conns out top_n
            = (Inr (min (nat top_n) (length conns)), fs', ?sorted))"
    using save_top_connections_returns [of conns _ _ _ top_n] len by auto
  from top srt perm stable len full ret tot show ?thesis by blast
qed

theorem top_connections_ranked_witness:
  "(0::int) \<le> 2
   \<and> top_connections [peer ''a'' 1005, peer ''b'' 1010, peer ''c'' 1005] 2
       = [peer ''b'' 1010, peer ''a'' 1005]
   \<and> length (top_connections [peer ''a'' 1005, peer ''b'' 1010, peer ''c'' 1005] 2) = 2
   \<and> top_connections [peer ''a'' 1005, peer ''b'' 1010, peer ''c'' 1005] 5
       = [peer ''b'' 1010, peer ''a'' 1005, peer ''c'' 1005]
   \<and> fst (save_top_connections all_writable Map.empty
            [peer ''a'' 1005, peer ''b'' 1010, peer ''c'' 1005] ''ranked.txt'' 2) = Inr 2
   \<and> fst (snd (save_top_connections all_writable Map.empty
            [peer ''a'' 1005, peer ''b'' 1010, peer ''c'' 1005] ''ranked.txt'' 2)) ''ranked.txt''
       = Some (Text ''b@1.2.3.4:26656,a@1.2.3.4:26656'')
   \<and> snd (snd (save_top_connections all_writable Map.empty
            [peer ''a'' 1005, peer ''b'' 1010, peer ''c'' 1005] ''ranked.txt'' 2))
       = [peer ''b'' 1010, peer ''a'' 1005, peer ''c'' 1005]"
proof -
  let ?conns = "[peer ''a'' 1005, peer ''b'' 1010, peer ''c'' 1005]"
  let ?res = "save_top_connections all_writable Map.empty ?conns ''ranked.txt'' 2"
  have srt: "sort_reverse (\<lambda>x. fst (snd x)) ?conns = [peer ''b'' 1010, peer ''a'' 1005, peer ''c'' 1005]"
    by (simp add: sort_reverse_def peer_def)
  have h2: "(0::int) \<le> 2" by simp
  note two = top_connections_ranked [OF h2, of ?conns]
  from two have "top_connections ?conns 2 = take (nat 2) (sort_reverse (\<lambda>x. fst (snd x)) ?conns)"
    by blast
  with srt have t2: "top_connections ?conns 2 = [peer ''b'' 1010, peer ''a'' 1005]"
    by simp
  from two have "length (top_connections ?conns 2) = min (nat 2) (length ?conns)"
    by blast
  then have l2: "length (top_connections ?conns 2) = 2"
    by simp
  have h5: "(0::int) \<le> 5" by simp
  have "int (length ?conns) \<le> 5" by simp
  with top_connections_ranked [OF h5, of ?conns]
  have "top_connections ?conns 5 = sort_reverse (\<lambda>x. fst (snd x)) ?conns"
    by blast
  with srt have t5: "top_connections ?conns 5 = [peer ''b'' 1010, peer ''a'' 1005, peer ''c'' 1005]"
    by simp
  have name: "replace ''.txt'' ''_ids_only.txt'' ''ranked.txt'' = ''ranked_ids_only.txt''"
    by (simp add: string_eval)
  have pre: "(\<forall>c \<in> set ?conns. \<exists>s. mi_node_id (snd (snd c)) = JStr s) \<and> all_writable ''ranked.txt''
      \<and> all_writable (replace ''.txt'' ''_ids_only.txt'' ''ranked.txt'')"
    by (simp add: peer_def all_writable_def)
  with two obtain fs' where res: "?res = (Inr (min (nat 2) (length ?conns)), fs',
      sort_reverse (\<lambda>x. fst (snd x)) ?conns)"
    by blast
  with two obtain ids where
    fs': "fs' = (Map.empty(''ranked.txt'' \<mapsto> Text (str_join CHR '',''
                     (map fst (take (nat 2) (sort_reverse (\<lambda>x. fst (snd x)) ?conns))))))
                  (replace ''.txt'' ''_ids_only.txt'' ''ranked.txt'' \<mapsto> Text (str_join CHR '','' ids))"
    by blast
  from fs' srt name have prim: "fs' ''ranked.txt'' = Some (Text ''b@1.2.3.4:26656,a@1.2.3.4:26656'')"
    by (simp add: peer_def)
  from h2 t2 l2 t5 res prim srt show ?thesis by simp
qed

text \<open>
  Claim C6. When \<open>save_top_connections\<close> returns, it has written two files from the same
  selection: the primary file holds the descriptors of the selected records joined by
  commas, then the ids-only file holds their reported identities joined by commas, one
  identity per selected record and in the same order; the count returned is their number.
  It does return when every reported identity is a string and both files can be opened.
\<close>

theorem ids_only_matches_primary:
  "(\<forall>n fs' cs. save_top_connections writable fs conns out top_n = (Inr n, fs', cs) \<longrightarrow>
      (\<exists>ids. map (\<lambda>c. mi_node_id (snd (snd c))) (top_connections conns top_n) = map JStr ids
           \<and> length ids = length (map fst (top_connections conns top_n))
           \<and> length ids = n
           \<and> fs' = (fs(out \<mapsto> Text (str_join CHR '','' (map fst (top_connections conns top_n)))))
                     (replace ''.txt'' ''_ids_only.txt'' out \<mapsto> Text (str_join CHR '','' ids))))
   \<and> ((\<forall>c \<in> set conns. \<exists>s. mi_node_id (snd (snd c)) = JStr s) \<and> writable out \<and>
        writable (replace ''.txt'' ''_ids_only.txt'' out) \<longrightarrow>
        (\<exists>fs'. save_top_connections writable fs conns out top_n
           = (Inr (length (top_connections conns top_n)), fs',
              sort_reverse (\<lambda>x. fst (snd x)) conns)))"
proof (intro conjI allI impI)
  fix n fs' cs
  assume res: "save_top_connections writable fs conns out top_n = (Inr n, fs', cs)"
  from save_top_connections_done [OF res]
  obtain ids where n: "n = length (top_connections conns top_n)"
    and ids: "map (\<lambda>c. mi_node_id (snd (snd c))) (top_connections conns top_n) = map JStr ids"
    and fs': "fs' = (fs(out \<mapsto> Text (str_join CHR '','' (map fst (top_connections conns top_n)))))
                     (replace ''.txt'' ''_ids_only.txt'' out \<mapsto> Text (str_join CHR '','' ids))"
    by blast
  from ids have "length ids = length (top_connections conns top_n)"
    by (metis length_map)
  with n ids fs'
  show "\<exists>ids. map (\<lambda>c. mi_node_id (snd (snd c))) (top_connections conns top_n) = map JStr ids
           \<and> length ids = length (map fst (top_connections conns top_n))
           \<and> length ids = n
           \<and> fs' = (fs(out \<mapsto> Text (str_join CHR '','' (map fst (top_connections conns top_n)))))
                     (replace ''.txt'' ''_ids_only.txt'' out \<mapsto> Text (str_join CHR '','' ids))"
    by auto
next
  assume "(\<forall>c \<in> set conns. \<exists>s. mi_node_id (snd (snd c)) = JStr s) \<and> writable out \<and>
        writable (replace ''.txt'' ''_ids_only.txt'' out)"
  then show "\<exists>fs'. save_top_connections writable fs conns out top_n
           = (Inr (length (top_connections conns top_n)), fs',
              sort_reverse (\<lambda>x. fst (snd x)) conns)"
    by (simp add: save_top_connections_returns)
qed

theorem ids_only_matches_primary_witness:
  "fst (save_top_connections all_writable Map.empty
          [peer ''a'' 1005, peer ''b'' 1010, peer ''c'' 1005] ''top.txt'' 2) = Inr 2
   \<and> fst (snd (save_top_connections all_writable Map.empty
          [peer ''a'' 1005, peer ''b'' 1010, peer ''c'' 1005] ''top.txt'' 2)) ''top.txt''
       = Some (Text ''b@1.2.3.4:26656,a@1.2.3.4:26656'')
   \<and> fst (snd (save_top_connections all_writable Map.empty
          [peer ''a'' 1005, peer ''b'' 1010, peer ''c'' 1005] ''top.txt'' 2)) ''top_ids_only.txt''
       = Some (Text ''b,a'')"
proof -
  let ?conns = "[peer ''a'' 1005, peer ''b'' 1010, peer ''c'' 1005]"
  let ?res = "save_top_connections all_writable Map.empty ?conns ''top.txt'' 2"
  note both = ids_only_matches_primary
    [where writable = all_writable and fs = Map.empty and conns = ?conns
       and out = "''top.txt''" and top_n = 2]
  have top: "top_connections ?conns 2 = [peer ''b'' 1010, peer ''a'' 1005]"
    by (simp add: file_eval)
  have name: "replace ''.txt'' ''_ids_only.txt'' ''top.txt'' = ''top_ids_only.txt''"
    by (simp add: string_eval)
  have pre: "(\<forall>c \<in> set ?conns. \<exists>s. mi_node_id (snd (snd c)) = JStr s) \<and> all_writable ''top.txt''
      \<and> all_writable (replace ''.txt'' ''_ids_only.txt'' ''top.txt'')"
    by (simp add: peer_def all_writable_def)
  with both obtain fs' where res: "?res = (Inr (length (top_connections ?conns 2)), fs',
      sort_reverse (\<lambda>x. fst (snd x)) ?conns)"
    by blast
  with both
  obtain ids where ids: "map (\<lambda>c. mi_node_id (snd (snd c))) (top_connections ?conns 2) = map JStr ids"
    and fs': "fs' = (Map.empty(''top.txt'' \<mapsto> Text (str_join CHR '','' (map fst (top_connections ?conns 2)))))
                     (replace ''.txt'' ''_ids_only.txt'' ''top.txt'' \<mapsto> Text (str_join CHR '','' ids))"
    by blast
  from ids top have "map JStr ids = [JStr ''b'', JStr ''a'']"
    by (simp add: peer_def)
  then have idv: "ids = [''b'', ''a'']"
    by (auto simp: map_eq_Cons_conv)
  from fs' top idv name have "fs' ''top.txt'' = Some (Text ''b@1.2.3.4:26656,a@1.2.3.4:26656'')"
    and "fs' ''top_ids_only.txt'' = Some (Text ''b,a'')"
    by (simp_all add: peer_def)
  with res top show ?thesis by simp
qed

text \<open>
  Claim C9. For an output filename without \<open>.txt\<close> in it, the ids-only filename is the
  output filename itself: \<open>save_ids_only\<close> writes the identities to that file, and after
  \<open>save_top_connections\<close> the primary file holds the identities, not the descriptors.
\<close>

theorem ids_only_overwrites_primary:
  assumes "\<not> str_contains ''.txt'' out"
  shows "replace ''.txt'' ''_ids_only.txt'' out = out
   \<and> (\<forall>writable fs conns fs'.
         save_ids_only writable fs conns out = (None, fs') \<longrightarrow>
         (\<exists>ids. map (\<lambda>c. mi_node_id (snd (snd c))) conns = map JStr ids \<and>
                fs' = fs(out \<mapsto> Text (str_join CHR '','' ids))))
   \<and> (\<forall>writable fs conns top_n n fs' cs.
         save_top_connections writable fs conns out top_n = (Inr n, fs', cs) \<longrightarrow>
         (\<exists>ids. map (\<lambda>c. mi_node_id (snd (snd c))) (top_connections conns top_n) = map JStr ids \<and>
                fs' = fs(out \<mapsto> Text (str_join CHR '','' ids))))"
proof -
  from assms have name: "replace ''.txt'' ''_ids_only.txt'' out = out"
    by (simp add: replace_absent)
  have ids: "\<forall>writable fs conns fs'.
         save_ids_only writable fs conns out = (None, fs') \<longrightarrow>
         (\<exists>ids. map (\<lambda>c. mi_node_id (snd (snd c))) conns = map JStr ids \<and>
                fs' = fs(out \<mapsto> Text (str_join CHR '','' ids)))"
    using name by (auto dest!: save_ids_only_done)
  have top: "\<forall>writable fs conns top_n n fs' cs.
         save_top_connections writable fs conns out top_n = (Inr n, fs', cs) \<longrightarrow>
         (\<exists>ids. map (\<lambda>c. mi_node_id (snd (snd c))) (top_connections conns top_n) = map JStr ids \<and>
                fs' = fs(out \<mapsto> Text (str_join CHR '','' ids)))"
    using name by (auto dest!: save_top_connections_done)
  from name ids top show ?thesis by blast
qed

theorem ids_only_overwrites_primary_witness:
  "\<not> str_contains ''.txt'' ''top''
   \<and> replace ''.txt'' ''_ids_only.txt'' ''top'' = ''top''
   \<and> fst (save_top_connections all_writable Map.empty
          [peer ''a'' 1005, peer ''b'' 1010, peer ''c'' 1005] ''top'' 2) = Inr 2
   \<and> fst (snd (save_top_connections all_writable Map.empty
          [peer ''a'' 1005, peer ''b'' 1010, peer ''c'' 1005] ''top'' 2)) ''top''
       = Some (Text ''b,a'')"
proof -
  let ?conns = "[peer ''a'' 1005, peer ''b'' 1010, peer ''c'' 1005]"
  let ?res = "save_top_connections all_writable Map.empty ?conns ''top'' 2"
  have absent: "\<not> str_contains ''.txt'' ''top''"
    by simp
  note ov = ids_only_overwrites_primary [OF absent]
  from ov have name: "replace ''.txt'' ''_ids_only.txt'' ''top'' = ''top''"
    by blast
  have ev: "fst ?res = Inr 2"
    by (simp add: file_eval name)
  then obtain fs' cs where res: "?res = (Inr 2, fs', cs)"
    by (cases ?res) auto
  have top: "top_connections ?conns 2 = [peer ''b'' 1010, peer ''a'' 1005]"
    by (simp add: file_eval)
  from ov res
  obtain ids where ids: "map (\<lambda>c. mi_node_id (snd (snd c))) (top_connections ?conns 2) = map JStr ids"
    and fs': "fs' = Map.empty(''top'' \<mapsto> Text (str_join CHR '','' ids))"
    by blast
  from ids top have "map JStr ids = [JStr ''b'', JStr ''a'']"
    by (simp add: peer_def)
  then have "ids = [''b'', ''a'']"
    by (auto simp: map_eq_Cons_conv)
  with fs' have "fs' ''top'' = Some (Text ''b,a'')"
    by simp
  with absent name ev res show ?thesis by simp
qed

subsection \<open>The run\<close>

text \<open>
  \<open>split\<close> never returns the empty list, so \<open>parse_file\<close> returns it only for a file
  that cannot be read: the test \<open>if not lines\<close> after it cannot see an empty file.
\<close>

lemma str_split_nonempty: "str_split sep s \<noteq> []"
  by (induction s) (auto split: list.splits)

lemma parse_file_readable:
  "read_file path = Inr text \<Longrightarrow> \<exists>l ls. parse_file read_file path = Inr (l # ls)"
  by (cases "str_split CHR '','' (strip text)")
     (simp_all add: parse_file_def str_split_nonempty)

lemma parse_file_empty_iff:
  "parse_file read_file path = Inr [] \<longleftrightarrow> read_file path = Inl OSError"
  by (auto simp: parse_file_def str_split_nonempty split: sum.splits if_splits)

lemma eval_reference: "fetch_expected_height (steady_world 0 ''1000'') ''http://rpc'' = Inr (Some 1000)"
  by (simp add: fetch_expected_height_def steady_world_def status_doc_def string_eval)

lemma eval_reference_no_peers: "fetch_expected_height no_peers_world ''http://rpc'' = Inr (Some 1000)"
  by (simp add: fetch_expected_height_def no_peers_world_def string_eval)

lemma eval_no_peers: "fetch_peers no_peers_world ''http://rpc'' = Inr []"
  by (simp add: fetch_peers_def no_peers_world_def)

lemma process_line_empty: "process_line w [] e ml d = Inr None"
  by (simp add: process_line_def)

lemma eval_order_one: "as_completed [0, Suc 0] (Suc 0) = [0]"
  by (simp add: as_completed_def)

lemma eval_check_empty: "check_nodes net [0, Suc 0] [[]] e ml d
   = \<lparr>successful_connections = [], moniker_infos = [], processed_count = Suc 0,
      log = [Processed (Suc 0) (Suc 0)]\<rparr>"
  by (simp add: check_nodes_def eval_order_one collect_step_def process_line_empty)

lemma eval_args:
  "int_of_str ''30'' = Inr 30" "int_of_str ''100'' = Inr 100" "int_of_str ''50'' = Inr 50"
  "lower ''True'' = ''true''"
  by (simp_all add: string_eval)

lemma eval_names:
  "replace ''.txt'' ''_ids_only.txt'' ''top_peers.txt'' = ''top_peers_ids_only.txt''"
  "replace ''.txt'' ''_moniker_objs.json'' ''top_peers.txt'' = ''top_peers_moniker_objs.json''"
  by (simp_all add: replace.simps)

lemma eval_save_none: "save_top_connections all_writable fs [] ''top_peers.txt'' 30
   = (Inr 0, fs(''top_peers.txt'' \<mapsto> Text [], ''top_peers_ids_only.txt'' \<mapsto> Text []), [])"
  by (simp add: save_top_connections_def save_ids_only_def sort_reverse_def slice_to_def
        all_writable_def eval_names)

text \<open>
  Claim C4 against the code. A peers file that is read and is empty, or holds only
  whitespace, gives the one descriptor \<open>''\<close>: the run goes on, writes empty outputs and
  ends with status 0. A file that cannot be read, and an endpoint that lists no peers,
  end the run with status 1 before any file is written.
\<close>

theorem empty_peers_file_not_fatal:
  "parse_file (env_read_file empty_file_env) ''peers.txt'' = Inr [[]]
   \<and> main empty_file_env Map.empty file_argv
       = (0, [''top_peers.txt'' \<mapsto> Text [], ''top_peers_ids_only.txt'' \<mapsto> Text [],
              ''top_peers_moniker_objs.json'' \<mapsto> Json []])
   \<and> main blank_file_env Map.empty file_argv
       = (0, [''top_peers.txt'' \<mapsto> Text [], ''top_peers_ids_only.txt'' \<mapsto> Text [],
              ''top_peers_moniker_objs.json'' \<mapsto> Json []])
   \<and> main unreadable_file_env Map.empty file_argv = (1, Map.empty)
   \<and> main no_peers_env Map.empty rpc_argv = (1, Map.empty)"
proof (intro conjI)
  show "parse_file (env_read_file empty_file_env) ''peers.txt'' = Inr [[]]"
    by (simp add: parse_file_def empty_file_env_def strip_def)
  show "main empty_file_env Map.empty file_argv
       = (0, [''top_peers.txt'' \<mapsto> Text [], ''top_peers_ids_only.txt'' \<mapsto> Text [],
              ''top_peers_moniker_objs.json'' \<mapsto> Json []])"
    by (simp add: main_def main_body_def argv_at_def file_argv_def eval_args run_def
          empty_file_env_def two_peer_env_def eval_reference parse_file_def strip_def
          eval_check_empty eval_save_none save_moniker_info_def eval_names Let_def)
       (simp add: all_writable_def)
  show "main blank_file_env Map.empty file_argv
       = (0, [''top_peers.txt'' \<mapsto> Text [], ''top_peers_ids_only.txt'' \<mapsto> Text [],
              ''top_peers_moniker_objs.json'' \<mapsto> Json []])"
    by (simp add: main_def main_body_def argv_at_def file_argv_def eval_args run_def
          blank_file_env_def two_peer_env_def eval_reference parse_file_def strip_def
          is_space_def eval_check_empty eval_save_none save_moniker_info_def eval_names Let_def)
       (simp add: all_writable_def)
  show "main unreadable_file_env Map.empty file_argv = (1, Map.empty)"
    by (simp add: main_def main_body_def argv_at_def file_argv_def eval_args run_def
          unreadable_file_env_def two_peer_env_def eval_reference parse_file_def)
  show "main no_peers_env Map.empty rpc_argv = (1, Map.empty)"
    by (simp add: main_def main_body_def argv_at_def rpc_argv_def eval_args run_def
          no_peers_env_def two_peer_env_def eval_reference_no_peers eval_no_peers)
qed

lemma readable_file_never_fatal:
  assumes "gp \<noteq> []" and "env_read_file env gp = Inr content"
    and "fetch_expected_height (env_net env) rpc_url = Inr (Some eh)"
  shows "fst (run env fs rpc_url gp top_n out jf acc ml) \<noteq> Exited c"
proof -
  from parse_file_readable [of "env_read_file env" gp content] assms(2)
  obtain l ls where "parse_file (env_read_file env) gp = Inr (l # ls)" by blast
  with assms show ?thesis
    by (auto simp: run_def Let_def split: prod.splits sum.splits option.splits)
qed

lemma map_filter_memD: "y \<in> set (List.map_filter f xs) \<Longrightarrow> \<exists>x \<in> set xs. f x = Some y"
  by (induction xs) (auto simp: map_filter_simps split: option.splits)

lemma check_nodes_connection_origin:
  assumes "r \<in> set (successful_connections (check_nodes net sched lines e ml d))"
  shows "\<exists>i < length lines. process_line (net i) (lines ! i) e ml d = Inr (Some r)"
proof -
  from assms obtain i where i: "i \<in> set (as_completed sched (length lines))"
    and acc: "accepted (process_line (net i) (lines ! i) e ml d) = Some r"
    unfolding check_nodes_connections by (auto dest: map_filter_memD)
  from i have "i < length lines" by (simp add: as_completed_set)
  moreover from acc have "process_line (net i) (lines ! i) e ml d = Inr (Some r)"
    by (auto simp: accepted_def split: sum.splits option.splits)
  ultimately show ?thesis by blast
qed

lemma run_completed_json:
  assumes "run env fs rpc_url gp top_n out True acc ml = (Completed, fs')"
  shows "\<exists>eh lines n fs1 cs.
     fetch_expected_height (env_net env) rpc_url = Inr (Some eh) \<and>
     (if gp \<noteq> [] then parse_file (env_read_file env) gp
      else fetch_peers (env_net env) rpc_url) = Inr lines \<and> lines \<noteq> [] \<and>
     save_top_connections (env_writable env) fs
        (successful_connections (check_nodes (env_task_net env) (env_sched env) lines eh ml acc))
        out top_n = (Inr n, fs1, cs) \<and>
     fs' = fs1(replace ''.txt'' ''_moniker_objs.json'' out \<mapsto>
             Json (moniker_infos (check_nodes (env_task_net env) (env_sched env) lines eh ml acc)))"
  using assms
  unfolding run_def Let_def save_moniker_info_def
  by (auto split: sum.splits option.splits if_splits prod.splits)

text \<open>The run over \<open>two_peer_env\<close>, evaluated.\<close>

lemma eval_lines:
  "parse_file (env_read_file two_peer_env) ''peers.txt''
     = Inr [''id0@10.0.0.1:26656'', ''id1@10.0.0.2:26656'']"
  by (simp add: parse_file_def two_peer_env_def strip_def is_space_def)

lemma eval_first:
  "process_line (two_peer_net 0) ''id0@10.0.0.1:26656'' 1000 (Some 50) 100 = Inr (Some first_peer)"
  by (simp add: two_peer_net_def first_peer_def probe_eval string_eval)

lemma eval_second:
  "process_line (two_peer_net (Suc 0)) ''id1@10.0.0.2:26656'' 1000 (Some 50) 100
     = Inr (Some second_peer)"
  by (simp add: two_peer_net_def second_peer_def probe_eval string_eval)

lemma eval_accepted:
  "successful_connections
     (check_nodes two_peer_net [0, Suc 0] [''id0@10.0.0.1:26656'', ''id1@10.0.0.2:26656'']
        1000 (Some 50) 100) = [first_peer, second_peer]"
  by (simp add: check_nodes_connections as_completed_def upt_rec map_filter_simps accepted_def
        eval_first eval_second)

lemma eval_save_one:
  "save_top_connections all_writable fs [first_peer, second_peer] ''top_peers.txt'' 1
     = (Inr 1, fs(''top_peers.txt'' \<mapsto> Text ''id1@10.0.0.2:26656'',
                  ''top_peers_ids_only.txt'' \<mapsto> Text ''id1''),
        [second_peer, first_peer])"
  by (simp add: save_top_connections_def save_ids_only_def sort_reverse_def slice_to_def
        all_writable_def eval_names first_peer_def second_peer_def)

lemma eval_save_two:
  "save_top_connections all_writable fs [first_peer, second_peer] ''top_peers.txt'' 2
     = (Inr 2, fs(''top_peers.txt'' \<mapsto> Text ''id1@10.0.0.2:26656,id0@10.0.0.1:26656'',
                  ''top_peers_ids_only.txt'' \<mapsto> Text ''id1,id0''),
        [second_peer, first_peer])"
  by (simp add: save_top_connections_def save_ids_only_def sort_reverse_def slice_to_def
        all_writable_def eval_names first_peer_def second_peer_def)

lemma eval_env:
  "env_net two_peer_env = steady_world 0 ''1000''"
  "env_task_net two_peer_env = two_peer_net"
  "env_sched two_peer_env = [0, Suc 0]"
  "env_writable two_peer_env = all_writable"
  by (simp_all add: two_peer_env_def)

lemma eval_run_one:
  "run two_peer_env Map.empty ''http://rpc'' ''peers.txt'' 1 ''top_peers.txt'' True 100 (Some 50)
     = (Completed,
        [''top_peers.txt'' \<mapsto> Text ''id1@10.0.0.2:26656'',
         ''top_peers_ids_only.txt'' \<mapsto> Text ''id1'',
         ''top_peers_moniker_objs.json'' \<mapsto> Json [snd (snd first_peer), snd (snd second_peer)]])"
  by (simp add: run_def eval_env eval_reference eval_lines Let_def eval_accepted
        check_nodes_monikers eval_save_one save_moniker_info_def eval_names)
     (simp add: all_writable_def)

lemma eval_run_two:
  "run two_peer_env Map.empty ''http://rpc'' ''peers.txt'' 2 ''top_peers.txt'' True 100 (Some 50)
     = (Completed,
        [''top_peers.txt'' \<mapsto> Text ''id1@10.0.0.2:26656,id0@10.0.0.1:26656'',
         ''top_peers_ids_only.txt'' \<mapsto> Text ''id1,id0'',
         ''top_peers_moniker_objs.json'' \<mapsto> Json [snd (snd first_peer), snd (snd second_peer)]])"
  by (simp add: run_def eval_env eval_reference eval_lines Let_def eval_accepted
        check_nodes_monikers eval_save_two save_moniker_info_def eval_names)
     (simp add: all_writable_def)

text \<open>
  Claim C7. When the metadata file is requested and the run completes, the file holds
  one entry for every accepted record, whatever \<open>top_n\<close> is: its length is the number
  of accepted records. Each entry is the one \<open>process_line\<close> built for some descriptor:
  moniker and identity as the status query reported them, host and port of the
  descriptor, the full-peer string made of identity, host and port, and the truncated
  latency of the connection.
\<close>

theorem metadata_lists_all_accepted:
  assumes "run env fs rpc_url gp top_n out True acc ml = (Completed, fs')"
  shows "\<exists>eh lines entries.
     fetch_expected_height (env_net env) rpc_url = Inr (Some eh) \<and>
     (if gp \<noteq> [] then parse_file (env_read_file env) gp
      else fetch_peers (env_net env) rpc_url) = Inr lines \<and>
     fs' (replace ''.txt'' ''_moniker_objs.json'' out) = Some (Json entries) \<and>
     entries = map (\<lambda>r. snd (snd r))
        (successful_connections (check_nodes (env_task_net env) (env_sched env) lines eh ml acc)) \<and>
     length entries = length
        (successful_connections (check_nodes (env_task_net env) (env_sched env) lines eh ml acc)) \<and>
     (\<forall>info \<in> set entries. \<exists>i < length lines. \<exists>bh ms.
         process_line (env_task_net env i) (lines ! i) eh ml acc
           = Inr (Some (lines ! i, bh, info)) \<and>
         tcp_connect (env_task_net env i) (mi_ip info) (mi_port info) = Inr ms \<and>
         mi_latency info = trunc ms \<and>
         get_latest_block_height (env_task_net env i) (mi_ip info) (mi_port info + 1)
           = Inr (Some bh, mi_moniker info, mi_node_id info) \<and>
         mi_full_peer info
           = format_json (env_task_net env i) (mi_node_id info) @ ''@'' @ mi_ip info @ '':''
               @ str_int (mi_port info))"
proof -
  from run_completed_json [OF assms]
  obtain eh lines n fs1 cs where eh: "fetch_expected_height (env_net env) rpc_url = Inr (Some eh)"
    and lines: "(if gp \<noteq> [] then parse_file (env_read_file env) gp
      else fetch_peers (env_net env) rpc_url) = Inr lines"
    and fs': "fs' = fs1(replace ''.txt'' ''_moniker_objs.json'' out \<mapsto>
             Json (moniker_infos (check_nodes (env_task_net env) (env_sched env) lines eh ml acc)))"
    by blast
  let ?checked = "check_nodes (env_task_net env) (env_sched env) lines eh ml acc"
  let ?entries = "map (\<lambda>r. snd (snd r)) (successful_connections ?checked)"
  from fs' have doc: "fs' (replace ''.txt'' ''_moniker_objs.json'' out) = Some (Json ?entries)"
    by (simp add: check_nodes_monikers)
  have fields: "\<forall>info \<in> set ?entries. \<exists>i < length lines. \<exists>bh ms.
         process_line (env_task_net env i) (lines ! i) eh ml acc
           = Inr (Some (lines ! i, bh, info)) \<and>
         tcp_connect (env_task_net env i) (mi_ip info) (mi_port info) = Inr ms \<and>
         mi_latency info = trunc ms \<and>
         get_latest_block_height (env_task_net env i) (mi_ip info) (mi_port info + 1)
           = Inr (Some bh, mi_moniker info, mi_node_id info) \<and>
         mi_full_peer info
           = format_json (env_task_net env i) (mi_node_id info) @ ''@'' @ mi_ip info @ '':''
               @ str_int (mi_port info)"
  proof
    fix info
    assume "info \<in> set ?entries"
    then obtain r where r: "r \<in> set (successful_connections ?checked)" and info: "info = snd (snd r)"
      by auto
    from check_nodes_connection_origin [OF r]
    obtain i where i: "i < length lines"
      and p: "process_line (env_task_net env i) (lines ! i) eh ml acc = Inr (Some r)"
      by blast
    from process_line_accepts [OF p] info
    have "\<exists>bh ms.
         r = (lines ! i, bh, info) \<and>
         tcp_connect (env_task_net env i) (mi_ip info) (mi_port info) = Inr ms \<and>
         mi_latency info = trunc ms \<and>
         get_latest_block_height (env_task_net env i) (mi_ip info) (mi_port info + 1)
           = Inr (Some bh, mi_moniker info, mi_node_id info) \<and>
         mi_full_peer info
           = format_json (env_task_net env i) (mi_node_id info) @ ''@'' @ mi_ip info @ '':''
               @ str_int (mi_port info)"
      by auto
    with i p show "\<exists>i < length lines. \<exists>bh ms.
         process_line (env_task_net env i) (lines ! i) eh ml acc
           = Inr (Some (lines ! i, bh, info)) \<and>
         tcp_connect (env_task_net env i) (mi_ip info) (mi_port info) = Inr ms \<and>
         mi_latency info = trunc ms \<and>
         get_latest_block_height (env_task_net env i) (mi_ip info) (mi_port info + 1)
           = Inr (Some bh, mi_moniker info, mi_node_id info) \<and>
         mi_full_peer info
           = format_json (env_task_net env i) (mi_node_id info) @ ''@'' @ mi_ip info @ '':''
               @ str_int (mi_port info)"
      by auto
  qed
  have len: "length ?entries = length (successful_connections ?checked)"
    by simp
  from eh lines doc fields len show ?thesis
    by blast
qed

theorem metadata_lists_all_accepted_witness:
  "fst (run two_peer_env Map.empty ''http://rpc'' ''peers.txt'' 1 ''top_peers.txt'' True 100
          (Some 50)) = Completed
   \<and> snd (run two_peer_env Map.empty ''http://rpc'' ''peers.txt'' 1 ''top_peers.txt'' True 100
          (Some 50)) ''top_peers_moniker_objs.json''
       = Some (Json [snd (snd first_peer), snd (snd second_peer)])
   \<and> snd (run two_peer_env Map.empty ''http://rpc'' ''peers.txt'' 1 ''top_peers.txt'' True 100
          (Some 50)) ''top_peers.txt''
       = Some (Text ''id1@10.0.0.2:26656'')"
proof -
  let ?run = "run two_peer_env Map.empty ''http://rpc'' ''peers.txt'' 1 ''top_peers.txt'' True 100
          (Some 50)"
  obtain fs' where res: "?run = (Completed, fs')"
    and prim: "fs' ''top_peers.txt'' = Some (Text ''id1@10.0.0.2:26656'')"
    by (simp add: eval_run_one)
  from metadata_lists_all_accepted [OF res]
  obtain eh lines where eh: "fetch_expected_height (env_net two_peer_env) ''http://rpc'' = Inr (Some eh)"
    and lines: "parse_file (env_read_file two_peer_env) ''peers.txt'' = Inr lines"
    and doc: "fs' (replace ''.txt'' ''_moniker_objs.json'' ''top_peers.txt'')
       = Some (Json (map (\<lambda>r. snd (snd r))
           (successful_connections
              (check_nodes (env_task_net two_peer_env) (env_sched two_peer_env) lines eh
                 (Some 50) 100))))"
    by auto
  from eh have "eh = 1000"
    by (simp add: eval_env eval_reference)
  moreover from lines have "lines = [''id0@10.0.0.1:26656'', ''id1@10.0.0.2:26656'']"
    by (simp add: eval_lines)
  ultimately have "fs' ''top_peers_moniker_objs.json''
       = Some (Json [snd (snd first_peer), snd (snd second_peer)])"
    using doc by (simp add: eval_env eval_accepted eval_names)
  with res prim show ?thesis by simp
qed

text \<open>
  Claim C10. The metadata file lists the entries in the order in which the tasks
  completed: \<open>check_nodes\<close> appends an entry when its task is collected, and the list is
  written as it is. The sort of \<open>save_top_connections\<close> reorders the list of connections
  it is given, not the metadata.
\<close>

theorem metadata_in_completion_order:
  assumes "run env fs rpc_url gp top_n out True acc ml = (Completed, fs')"
  shows "\<exists>eh lines n fs1.
     fetch_expected_height (env_net env) rpc_url = Inr (Some eh) \<and>
     (if gp \<noteq> [] then parse_file (env_read_file env) gp
      else fetch_peers (env_net env) rpc_url) = Inr lines \<and>
     fs' (replace ''.txt'' ''_moniker_objs.json'' out)
       = Some (Json (map (\<lambda>r. snd (snd r))
           (List.map_filter
              (\<lambda>i. accepted (process_line (env_task_net env i) (lines ! i) eh ml acc))
              (as_completed (env_sched env) (length lines))))) \<and>
     moniker_infos (check_nodes (env_task_net env) (env_sched env) lines eh ml acc)
       = map (\<lambda>r. snd (snd r))
           (List.map_filter
              (\<lambda>i. accepted (process_line (env_task_net env i) (lines ! i) eh ml acc))
              (as_completed (env_sched env) (length lines))) \<and>
     save_top_connections (env_writable env) fs
        (successful_connections (check_nodes (env_task_net env) (env_sched env) lines eh ml acc))
        out top_n
       = (Inr n, fs1,
          sort_reverse (\<lambda>x. fst (snd x))
            (successful_connections
               (check_nodes (env_task_net env) (env_sched env) lines eh ml acc)))"
proof -
  from run_completed_json [OF assms]
  obtain eh lines n fs1 cs where eh: "fetch_expected_height (env_net env) rpc_url = Inr (Some eh)"
    and lines: "(if gp \<noteq> [] then parse_file (env_read_file env) gp
      else fetch_peers (env_net env) rpc_url) = Inr lines"
    and save: "save_top_connections (env_writable env) fs
        (successful_connections (check_nodes (env_task_net env) (env_sched env) lines eh ml acc))
        out top_n = (Inr n, fs1, cs)"
    and fs': "fs' = fs1(replace ''.txt'' ''_moniker_objs.json'' out \<mapsto>
             Json (moniker_infos (check_nodes (env_task_net env) (env_sched env) lines eh ml acc)))"
    by blast
  let ?checked = "check_nodes (env_task_net env) (env_sched env) lines eh ml acc"
  let ?order = "List.map_filter
              (\<lambda>i. accepted (process_line (env_task_net env i) (lines ! i) eh ml acc))
              (as_completed (env_sched env) (length lines))"
  have infos: "moniker_infos ?checked = map (\<lambda>r. snd (snd r)) ?order"
    by (simp add: check_nodes_monikers check_nodes_connections)
  with fs' have doc: "fs' (replace ''.txt'' ''_moniker_objs.json'' out)
       = Some (Json (map (\<lambda>r. snd (snd r)) ?order))"
    by simp
  from save_top_connections_done [OF save]
  have "cs = sort_reverse (\<lambda>x. fst (snd x)) (successful_connections ?checked)"
    by blast
  with save have sorted: "save_top_connections (env_writable env) fs
        (successful_connections ?checked) out top_n
       = (Inr n, fs1, sort_reverse (\<lambda>x. fst (snd x)) (successful_connections ?checked))"
    by simp
  from eh lines doc infos sorted show ?thesis
    by blast
qed

theorem metadata_in_completion_order_witness:
  "fst (run two_peer_env Map.empty ''http://rpc'' ''peers.txt'' 2 ''top_peers.txt'' True 100
          (Some 50)) = Completed
   \<and> snd (run two_peer_env Map.empty ''http://rpc'' ''peers.txt'' 2 ''top_peers.txt'' True 100
          (Some 50)) ''top_peers_moniker_objs.json''
       = Some (Json [snd (snd first_peer), snd (snd second_peer)])
   \<and> snd (run two_peer_env Map.empty ''http://rpc'' ''peers.txt'' 2 ''top_peers.txt'' True 100
          (Some 50)) ''top_peers.txt''
       = Some (Text ''id1@10.0.0.2:26656,id0@10.0.0.1:26656'')
   \<and> sort_reverse (\<lambda>x. fst (snd x)) [first_peer, second_peer] = [second_peer, first_peer]"
proof -
  let ?run = "run two_peer_env Map.empty ''http://rpc'' ''peers.txt'' 2 ''top_peers.txt'' True 100
          (Some 50)"
  obtain fs' where res: "?run = (Completed, fs')"
    and prim: "fs' ''top_peers.txt'' = Some (Text ''id1@10.0.0.2:26656,id0@10.0.0.1:26656'')"
    by (simp add: eval_run_two)
  from metadata_in_completion_order [OF res]
  obtain eh lines where eh: "fetch_expected_height (env_net two_peer_env) ''http://rpc'' = Inr (Some eh)"
    and lines: "parse_file (env_read_file two_peer_env) ''peers.txt'' = Inr lines"
    and doc: "fs' (replace ''.txt'' ''_moniker_objs.json'' ''top_peers.txt'')
       = Some (Json (map (\<lambda>r. snd (snd r))
           (List.map_filter
              (\<lambda>i. accepted (process_line (env_task_net two_peer_env i) (lines ! i) eh
                               (Some 50) 100))
              (as_completed (env_sched two_peer_env) (length lines)))))"
    by auto
  from eh have "eh = 1000"
    by (simp add: eval_env eval_reference)
  moreover from lines have "lines = [''id0@10.0.0.1:26656'', ''id1@10.0.0.2:26656'']"
    by (simp add: eval_lines)
  ultimately have "fs' ''top_peers_moniker_objs.json''
       = Some (Json [snd (snd first_peer), snd (snd second_peer)])"
    using doc
    by (simp add: eval_env eval_names as_completed_def upt_rec map_filter_simps accepted_def
          eval_first eval_second)
  moreover have "sort_reverse (\<lambda>x. fst (snd x)) [first_peer, second_peer] = [second_peer, first_peer]"
    by (simp add: sort_reverse_def first_peer_def second_peer_def)
  ultimately show ?thesis
    using res prim by simp
qed

end
